theory Spec2Isabelle
  imports Complex_Main "HOL-Library.Multiset"
begin

section \<open>JavaScript strings\<close>

text \<open>
  A string is a list of characters, each read as one code point of the range U+0000 to
  U+00FF (so that the Danish letters of the keyword tables are single characters: U+00E6,
  U+00F8, U+00E5). \<open>toLowerCase\<close> and \<open>trim\<close> are the methods of
  \<open>String.prototype\<close> on that range; code points above U+00FF are outside the model.
  Glyphs the code only stores and hands on (the category icons) are written by their code
  point names.
\<close>

definition isWhitespace :: "char \<Rightarrow> bool" where
  "isWhitespace c =
     (c \<in> set [CHR 0x09, CHR 0x0A, CHR 0x0B, CHR 0x0C, CHR 0x0D, CHR 0x20, CHR 0xA0])"

definition upperChars :: string where
  "upperChars = ''ABCDEFGHIJKLMNOPQRSTUVWXYZ'' @
     [CHR 0xC0, CHR 0xC1, CHR 0xC2, CHR 0xC3, CHR 0xC4, CHR 0xC5, CHR 0xC6, CHR 0xC7,
      CHR 0xC8, CHR 0xC9, CHR 0xCA, CHR 0xCB, CHR 0xCC, CHR 0xCD, CHR 0xCE, CHR 0xCF,
      CHR 0xD0, CHR 0xD1, CHR 0xD2, CHR 0xD3, CHR 0xD4, CHR 0xD5, CHR 0xD6,
      CHR 0xD8, CHR 0xD9, CHR 0xDA, CHR 0xDB, CHR 0xDC, CHR 0xDD, CHR 0xDE]"

definition lowerChars :: string where
  "lowerChars = ''abcdefghijklmnopqrstuvwxyz'' @
     [CHR 0xE0, CHR 0xE1, CHR 0xE2, CHR 0xE3, CHR 0xE4, CHR 0xE5, CHR 0xE6, CHR 0xE7,
      CHR 0xE8, CHR 0xE9, CHR 0xEA, CHR 0xEB, CHR 0xEC, CHR 0xED, CHR 0xEE, CHR 0xEF,
      CHR 0xF0, CHR 0xF1, CHR 0xF2, CHR 0xF3, CHR 0xF4, CHR 0xF5, CHR 0xF6,
      CHR 0xF8, CHR 0xF9, CHR 0xFA, CHR 0xFB, CHR 0xFC, CHR 0xFD, CHR 0xFE]"

definition lowerChar :: "char \<Rightarrow> char" where
  "lowerChar c = (case map_of (zip upperChars lowerChars) c of Some d \<Rightarrow> d | None \<Rightarrow> c)"

definition toLowerCase :: "string \<Rightarrow> string" where
  "toLowerCase s = map lowerChar s"

definition trim :: "string \<Rightarrow> string" where
  "trim s = rev (dropWhile isWhitespace (rev (dropWhile isWhitespace s)))"

fun startsWith :: "string \<Rightarrow> string \<Rightarrow> bool" where
  "startsWith s [] = True"
| "startsWith [] (w # ws) = False"
| "startsWith (c # cs) (w # ws) = (c = w \<and> startsWith cs ws)"

text \<open>\<open>includesStr s w\<close> is \<open>s.includes(w)\<close>: \<open>w\<close> occurs in \<open>s\<close> as a substring.\<close>

fun includesStr :: "string \<Rightarrow> string \<Rightarrow> bool" where
  "includesStr [] w = (w = [])"
| "includesStr (c # cs) w = (startsWith (c # cs) w \<or> includesStr cs w)"

text \<open>\<open>decimal n\<close> is the text of a non-negative integer in a template literal.\<close>

fun decimal :: "nat \<Rightarrow> string" where
  "decimal n =
     (if n < 10 then [''0123456789'' ! n]
      else decimal (n div 10) @ [''0123456789'' ! (n mod 10)])"

declare decimal.simps [simp del]

section \<open>Shopping list service\<close>

subsection \<open>Items\<close>

datatype priority = High | Medium | Low

text \<open>
  A stored shopping-list item. A property that may be \<open>undefined\<close> on the stored
  object is an option, \<open>None\<close> being \<open>undefined\<close>; a property that is present has the
  type the item structure documents. \<open>JSON.stringify\<close> omits an \<open>undefined\<close> property
  and \<open>JSON.parse\<close> reads the omitted property back as \<open>undefined\<close>, so a list is
  read from the store as it was written.
\<close>

record shopping_item =
  itemId :: string
  name :: string
  amount :: "string option"
  category :: "string option"
  categoryIcon :: "string option"
  isChecked :: bool
  priority :: "priority option"
  addedDate :: string
  source :: "string option"
  recipeId :: "string option"
  recipeName :: "string option"
  essential :: "bool option"

text \<open>The argument object of \<open>addToShoppingList\<close>: every property but the name may be absent.\<close>

record item_arg =
  i_name :: string
  i_amount :: "string option"
  i_category :: "string option"
  i_categoryIcon :: "string option"
  i_priority :: "priority option"
  i_source :: "string option"
  i_recipeId :: "string option"
  i_recipeName :: "string option"
  i_essential :: "bool option"

text \<open>
  What an operation reads from its environment: \<open>Date.now()\<close>,
  \<open>new Date().toISOString()\<close> and the nine characters cut from
  \<open>Math.random().toString(36)\<close>.
\<close>

record env =
  clock :: nat
  isoNow :: string
  rand :: string

subsection \<open>Truthiness and the operators built on it\<close>

definition truthyBool :: "bool option \<Rightarrow> bool" where
  "truthyBool v = (v = Some True)"

text \<open>
  \<open>a || d\<close> for a string or \<open>undefined\<close> and a default text, and \<open>a || b\<close> on
  booleans and on priorities (every priority is a non-empty string).
\<close>

definition orDefault :: "string option \<Rightarrow> string \<Rightarrow> string" where
  "orDefault a d = (case a of None \<Rightarrow> d | Some s \<Rightarrow> if s = [] then d else s)"

definition orBool :: "bool option \<Rightarrow> bool option \<Rightarrow> bool option" where
  "orBool a b = (if truthyBool a then a else b)"

definition orPriority :: "priority option \<Rightarrow> priority option \<Rightarrow> priority option" where
  "orPriority a b = (case a of Some p \<Rightarrow> Some p | None \<Rightarrow> b)"

text \<open>A string or \<open>undefined\<close> inside a template literal.\<close>

definition templateStr :: "string option \<Rightarrow> string" where
  "templateStr v = (case v of None \<Rightarrow> ''undefined'' | Some s \<Rightarrow> s)"

subsection \<open>Helper functions\<close>

definition combineAmounts :: "string option \<Rightarrow> string option \<Rightarrow> string option" where
  "combineAmounts amount1 amount2 =
     (if amount1 = amount2 then amount1
      else Some (templateStr amount1 @ '' + '' @ templateStr amount2))"

text \<open>
  \<open>priorityOrder[p]\<close>: the rank of a priority, \<open>undefined\<close> for an absent one. A
  comparison \<open>>=\<close> with \<open>undefined\<close> on either side is false.
\<close>

definition priorityOrder :: "priority option \<Rightarrow> nat option" where
  "priorityOrder p =
     (case p of None \<Rightarrow> None | Some High \<Rightarrow> Some 3 | Some Medium \<Rightarrow> Some 2 | Some Low \<Rightarrow> Some 1)"

definition geUndef :: "nat option \<Rightarrow> nat option \<Rightarrow> bool" where
  "geUndef a b = (case (a, b) of (Some x, Some y) \<Rightarrow> y \<le> x | _ \<Rightarrow> False)"

definition getHigherPriority :: "priority option \<Rightarrow> priority option \<Rightarrow> priority option" where
  "getHigherPriority priority1 priority2 =
     (if geUndef (priorityOrder priority1) (priorityOrder priority2) then priority1 else priority2)"

fun findIndex :: "('a \<Rightarrow> bool) \<Rightarrow> 'a list \<Rightarrow> nat option" where
  "findIndex P [] = None"
| "findIndex P (x # xs) =
     (if P x then Some 0 else (case findIndex P xs of None \<Rightarrow> None | Some i \<Rightarrow> Some (Suc i)))"

text \<open>The identity of an entry: \<open>name.toLowerCase().trim()\<close>.\<close>

definition nameKey :: "string \<Rightarrow> string" where
  "nameKey s = trim (toLowerCase s)"

definition newItemId :: "env \<Rightarrow> string" where
  "newItemId e = ''shopping-'' @ decimal (clock e) @ ''-'' @ rand e"

subsection \<open>addToShoppingList\<close>

text \<open>
  The list argument is the list \<open>getShoppingList\<close> returns, the result the list handed
  to \<open>saveShoppingList\<close> and returned to the caller.
\<close>

definition mergeInto :: "env \<Rightarrow> shopping_item \<Rightarrow> item_arg \<Rightarrow> shopping_item" where
  "mergeInto e existing item =
     existing\<lparr>amount := combineAmounts (amount existing) (i_amount item),
              priority := getHigherPriority (priority existing) (i_priority item),
              essential := orBool (essential existing) (i_essential item),
              isChecked := False,
              addedDate := isoNow e\<rparr>"

definition newItem :: "env \<Rightarrow> item_arg \<Rightarrow> shopping_item" where
  "newItem e item =
     \<lparr>itemId = newItemId e,
      name = trim (i_name item),
      amount = Some (orDefault (i_amount item) ''1 stk''),
      category = Some (orDefault (i_category item) ''Andre''),
      categoryIcon = Some (orDefault (i_categoryIcon item) ''U+1F6D2''),
      isChecked = False,
      priority = orPriority (i_priority item) (Some Medium),
      addedDate = isoNow e,
      source = Some (orDefault (i_source item) ''manual''),
      recipeId = i_recipeId item,
      recipeName = i_recipeName item,
      essential = orBool (i_essential item) (Some False)\<rparr>"

definition addToShoppingList :: "env \<Rightarrow> item_arg \<Rightarrow> shopping_item list \<Rightarrow> shopping_item list" where
  "addToShoppingList e item currentList =
     (case findIndex (\<lambda>existing. nameKey (name existing) = nameKey (i_name item)) currentList of
        Some existingIndex \<Rightarrow>
          currentList[existingIndex := mergeInto e (currentList ! existingIndex) item]
      | None \<Rightarrow> currentList @ [newItem e item])"

text \<open>A sequence of add operations, each with the environment it runs in.\<close>

fun addAll :: "(env \<times> item_arg) list \<Rightarrow> shopping_item list \<Rightarrow> shopping_item list" where
  "addAll [] currentList = currentList"
| "addAll ((e, item) # ops) currentList = addAll ops (addToShoppingList e item currentList)"


subsection \<open>The merge policy, for a sequence of adds\<close>

text \<open>
  For a key and a sequence of adds: whether one of the adds for the key is essential, and
  the highest rank among the priorities of the adds for the key. An entry agrees with the
  sequence when its essential flag is truthy exactly if one of the adds for its name is
  essential, and its priority has the highest rank of the adds for its name.
\<close>

definition opKey :: "env \<times> item_arg \<Rightarrow> string" where
  "opKey op = nameKey (i_name (snd op))"

definition rankArg :: "env \<times> item_arg \<Rightarrow> nat" where
  "rankArg op = (case priorityOrder (i_priority (snd op)) of None \<Rightarrow> 0 | Some r \<Rightarrow> r)"

definition maxRank :: "string \<Rightarrow> (env \<times> item_arg) list \<Rightarrow> nat" where
  "maxRank k ops = fold max (map rankArg (filter (\<lambda>op. opKey op = k) ops)) 0"

definition anyEssential :: "string \<Rightarrow> (env \<times> item_arg) list \<Rightarrow> bool" where
  "anyEssential k ops = list_ex (\<lambda>op. opKey op = k \<and> truthyBool (i_essential (snd op))) ops"

definition entryAgrees :: "(env \<times> item_arg) list \<Rightarrow> shopping_item \<Rightarrow> bool" where
  "entryAgrees ops x =
     (truthyBool (essential x) = anyEssential (nameKey (name x)) ops \<and>
      priorityOrder (priority x) = Some (maxRank (nameKey (name x)) ops))"

definition mergeInv :: "(env \<times> item_arg) list \<Rightarrow> shopping_item list \<Rightarrow> bool" where
  "mergeInv ops l =
     (distinct (map (\<lambda>x. nameKey (name x)) l) \<and>
      list_all (\<lambda>op. opKey op \<in> set (map (\<lambda>x. nameKey (name x)) l)) ops \<and>
      list_all (entryAgrees ops) l)"

subsection \<open>categorizeIngredient\<close>

record category_info =
  cat_name :: string
  cat_icon :: string

definition someIncludes :: "string list \<Rightarrow> string \<Rightarrow> bool" where
  "someIncludes ws lowerName = list_ex (\<lambda>word. includesStr lowerName word) ws"

text \<open>The letters U+00E6, U+00F8, U+00E5 and U+00C6 of the keyword tables and category names.\<close>

definition ae :: string where "ae = [CHR 0xE6]"
definition oe :: string where "oe = [CHR 0xF8]"
definition aa :: string where "aa = [CHR 0xE5]"
definition AE :: string where "AE = [CHR 0xC6]"

definition categorizeIngredient :: "string \<Rightarrow> category_info" where
  "categorizeIngredient nm =
     (let lowerName = toLowerCase nm in
      if someIncludes [''m'' @ ae @ ''lk'', ''fl'' @ oe @ ''de'', ''yoghurt'', ''ost'',
                       ''sm'' @ oe @ ''r'', ''k'' @ ae @ ''rnem'' @ ae @ ''lk''] lowerName
      then \<lparr>cat_name = ''Mejeriprodukter'', cat_icon = ''U+1F95B''\<rparr>
      else if someIncludes [''k'' @ oe @ ''d'', ''kylling'', ''oksek'' @ oe @ ''d'',
                            ''svinek'' @ oe @ ''d'', ''fisk'', ''laks'', ''tuna'', ''hakket''] lowerName
      then \<lparr>cat_name = ''K'' @ oe @ ''d & Fisk'', cat_icon = ''U+1F969''\<rparr>
      else if someIncludes [''l'' @ oe @ ''g'', ''gulerod'', ''kartoffel'', ''tomat'', ''salat'',
                            ''peberfrugt'', ''broccoli'', ''spinat'', ''courgette'', ''aubergine'',
                            ''agurk'', ''gr'' @ oe @ ''ntsag''] lowerName
      then \<lparr>cat_name = ''Gr'' @ oe @ ''ntsager'', cat_icon = ''U+1F955''\<rparr>
      else if someIncludes [ae @ ''ble'', ''banan'', ''appelsin'', ''citron'', ''p'' @ ae @ ''re'',
                            ''jordb'' @ ae @ ''r'', ''bl'' @ aa @ ''b'' @ ae @ ''r'', ''kiwi'',
                            ''mango'', ''ananas'', ''frugt''] lowerName
      then \<lparr>cat_name = ''Frugt'', cat_icon = ''U+1F34E''\<rparr>
      else if someIncludes [''br'' @ oe @ ''d'', ''pasta'', ''ris'', ''mel'', ''havregryn'',
                            ''quinoa'', ''bulgur''] lowerName
      then \<lparr>cat_name = ''Br'' @ oe @ ''d & Korn'', cat_icon = ''U+1F35E''\<rparr>
      else if someIncludes [''salt'', ''peber'', ''krydderi'', ''oregano'', ''basilikum'', ''soja'',
                            ''olie'', ''eddike'', ''honning'', ''sukker''] lowerName
      then \<lparr>cat_name = ''Krydderier'', cat_icon = ''U+1F9C2''\<rparr>
      else if someIncludes [ae @ ''g''] lowerName
      then \<lparr>cat_name = AE @ ''g'', cat_icon = ''U+1F95A''\<rparr>
      else \<lparr>cat_name = ''Andre'', cat_icon = ''U+1F6D2''\<rparr>)"

subsection \<open>addRecipeToShoppingList\<close>

text \<open>
  An entry of a recipe's \<open>missingIngredients\<close> array, as the function reads it: an
  object with the properties \<open>name\<close>, \<open>amount\<close> and \<open>essential\<close>, each of which may be
  absent, or a bare text (the fallback catalog lists \<open>'bouillon'\<close> so). Reading one of
  the three properties from a text yields \<open>undefined\<close>.
\<close>

record ingredient_fields =
  ing_name :: "string option"
  ing_amount :: "string option"
  ing_essential :: "bool option"

datatype missing_ingredient = IngObj ingredient_fields | IngText string

fun ingName :: "missing_ingredient \<Rightarrow> string option" where
  "ingName (IngObj f) = ing_name f"
| "ingName (IngText s) = None"

fun ingAmount :: "missing_ingredient \<Rightarrow> string option" where
  "ingAmount (IngObj f) = ing_amount f"
| "ingAmount (IngText s) = None"

fun ingEssential :: "missing_ingredient \<Rightarrow> bool option" where
  "ingEssential (IngObj f) = ing_essential f"
| "ingEssential (IngText s) = None"

text \<open>The properties of the \<open>recipe\<close> argument that the function reads.\<close>

record recipe_arg =
  ra_id :: "string option"
  ra_title :: "string option"
  ra_missingIngredients :: "missing_ingredient list option"

text \<open>
  The exceptions of the services. \<open>TypeError\<close> is the engine's exception for a method
  call on \<open>undefined\<close> or \<open>null\<close> and for calling a property that is not a function,
  \<open>SyntaxError\<close> the exception of \<open>JSON.parse\<close>, \<open>NetworkError\<close> a rejected
  \<open>fetch\<close>. The others are the \<open>Error\<close> objects the code constructs, named after
  their messages: \<open>NoMissingIngredients\<close> (Ingen manglende ingredienser at tilfoeje),
  \<open>NoIngredients\<close> (Ingen ingredienser tilgaengelige), \<open>CouldNotUnderstand\<close> (Kunne
  ikke forstaa AI svar), \<open>CouldNotGenerate\<close> (Kunne ikke generere opskriftsforslag),
  \<open>TimedOut\<close> (AI request timed out) and \<open>ApiError\<close> (Azure OpenAI API error, with
  the status and the body).
\<close>

datatype error =
    TypeError
  | NoMissingIngredients
  | NoIngredients
  | CouldNotUnderstand
  | CouldNotGenerate
  | TimedOut
  | ApiError nat string
  | SyntaxError
  | NetworkError

definition recipeItem :: "recipe_arg \<Rightarrow> missing_ingredient \<Rightarrow> string \<Rightarrow> item_arg" where
  "recipeItem recipe ingredient nm =
     (let cat = categorizeIngredient nm in
      \<lparr>i_name = nm,
       i_amount = ingAmount ingredient,
       i_category = Some (cat_name cat),
       i_categoryIcon = Some (cat_icon cat),
       i_priority = Some (if truthyBool (ingEssential ingredient) then High else Medium),
       i_source = Some ''recipe'',
       i_recipeId = ra_id recipe,
       i_recipeName = ra_title recipe,
       i_essential = orBool (ingEssential ingredient) (Some False)\<rparr>)"

text \<open>The new entry of the recipe path: the item spread as it is, with no defaults and the name not trimmed.\<close>

definition newRecipeItem :: "env \<Rightarrow> item_arg \<Rightarrow> shopping_item" where
  "newRecipeItem e item =
     \<lparr>itemId = newItemId e,
      name = i_name item,
      amount = i_amount item,
      category = i_category item,
      categoryIcon = i_categoryIcon item,
      isChecked = False,
      priority = i_priority item,
      addedDate = isoNow e,
      source = i_source item,
      recipeId = i_recipeId item,
      recipeName = i_recipeName item,
      essential = i_essential item\<rparr>"

text \<open>
  The loop over the missing ingredients; \<open>envs k\<close> is the environment of its \<open>k\<close>-th
  round. An entry without a name makes \<open>categorizeIngredient\<close> call \<open>toLowerCase\<close> on
  \<open>undefined\<close>, which throws.
\<close>

fun addIngredients ::
  "(nat \<Rightarrow> env) \<Rightarrow> recipe_arg \<Rightarrow> nat \<Rightarrow> missing_ingredient list \<Rightarrow>
   shopping_item list \<Rightarrow> nat \<Rightarrow> error + (shopping_item list \<times> nat)" where
  "addIngredients envs recipe k [] currentList addedCount = Inr (currentList, addedCount)"
| "addIngredients envs recipe k (ingredient # rest) currentList addedCount =
     (case ingName ingredient of
        None \<Rightarrow> Inl TypeError
      | Some nm \<Rightarrow>
          (let item = recipeItem recipe ingredient nm in
           case findIndex (\<lambda>existing. nameKey (name existing) = nameKey (i_name item)) currentList of
             Some existingIndex \<Rightarrow>
               addIngredients envs recipe (Suc k) rest
                 (currentList[existingIndex := mergeInto (envs k) (currentList ! existingIndex) item])
                 addedCount
           | None \<Rightarrow>
               addIngredients envs recipe (Suc k) rest
                 (currentList @ [newRecipeItem (envs k) item]) (Suc addedCount)))"

record add_result =
  success :: bool
  addedCount :: nat
  totalItems :: nat

text \<open>
  The result is what the caller gets (the returned object or the exception thrown) together
  with the stored list after the call: the list is saved once, after the loop, so a call
  that throws leaves the store as it was.
\<close>

definition addRecipeToShoppingList ::
  "(nat \<Rightarrow> env) \<Rightarrow> recipe_arg \<Rightarrow> shopping_item list \<Rightarrow> (error + add_result) \<times> shopping_item list" where
  "addRecipeToShoppingList envs recipe stored =
     (case ra_missingIngredients recipe of
        None \<Rightarrow> (Inl NoMissingIngredients, stored)
      | Some [] \<Rightarrow> (Inl NoMissingIngredients, stored)
      | Some (m # ms) \<Rightarrow>
          (case addIngredients envs recipe 0 (m # ms) stored 0 of
             Inl err \<Rightarrow> (Inl err, stored)
           | Inr (currentList, n) \<Rightarrow>
               (Inr \<lparr>success = True, addedCount = n, totalItems = length currentList\<rparr>, currentList)))"

subsection \<open>groupShoppingListByCategory\<close>






















section \<open>Categories and food items\<close>

record category_rec =
  cat_id :: string
  cat_title :: string
  icon :: string

definition DEFAULT_CATEGORIES :: "category_rec list" where
  "DEFAULT_CATEGORIES =
     [\<lparr>cat_id = ''fridge'', cat_title = ''K'' @ oe @ ''leskab'', icon = ''U+2744''\<rparr>,
      \<lparr>cat_id = ''freezer'', cat_title = ''Fryser'', icon = ''U+1F9CA''\<rparr>]"

text \<open>
  The category store: the value under the key \<open>@foogood_categories\<close>, \<open>None\<close> when the
  key holds nothing. \<open>loadCategories\<close> returns the list and the store after the call (it
  saves the defaults when the key holds nothing).
\<close>

definition loadCategories :: "category_rec list option \<Rightarrow> category_rec list \<times> category_rec list option" where
  "loadCategories store =
     (case store of
        None \<Rightarrow> (DEFAULT_CATEGORIES, Some DEFAULT_CATEGORIES)
      | Some cs \<Rightarrow> (cs, Some cs))"

definition deleteCategory :: "string \<Rightarrow> category_rec list option \<Rightarrow> category_rec list \<times> category_rec list option" where
  "deleteCategory categoryId store =
     (let categories = fst (loadCategories store);
          updatedCategories = filter (\<lambda>cat. cat_id cat \<noteq> categoryId) categories
      in (updatedCategories, Some updatedCategories))"

record food_item =
  f_id :: string
  f_name :: string
  qty :: nat
  categoryId :: string

text \<open>The state of the application context: the items, the categories and the category store.\<close>

record app_state =
  items :: "food_item list"
  categories :: "category_rec list"
  categoryStore :: "category_rec list option"

definition removeCategory :: "string \<Rightarrow> app_state \<Rightarrow> app_state" where
  "removeCategory cid st =
     (let (updatedCategories, store') = deleteCategory cid (categoryStore st);
          updatedItems = map (\<lambda>item. if categoryId item = cid
                                      then item\<lparr>categoryId := ''pantry''\<rparr> else item) (items st)
      in st\<lparr>categories := updatedCategories, categoryStore := store', items := updatedItems\<rparr>)"

text \<open>
  The guard of the categories screen: the delete button is rendered for a category only
  if \<open>isDefaultCategory\<close> is false, and \<open>handleDeleteCategory\<close> calls
  \<open>removeCategory\<close> only for a category without items. The category management modal
  calls \<open>removeCategory\<close> for any category once the user confirms.
\<close>

definition isDefaultCategory :: "string \<Rightarrow> bool" where
  "isDefaultCategory cid = (cid \<in> set [''fridge'', ''freezer''])"

definition screenDeleteCategory :: "string \<Rightarrow> app_state \<Rightarrow> app_state" where
  "screenDeleteCategory cid st =
     (if isDefaultCategory cid then st
      else if filter (\<lambda>item. categoryId item = cid) (items st) \<noteq> [] then st
      else removeCategory cid st)"

definition modalDeleteCategory :: "string \<Rightarrow> app_state \<Rightarrow> app_state" where
  "modalDeleteCategory cid st = removeCategory cid st"

text \<open>A food item is orphaned when its category is not in the category list.\<close>

definition orphaned :: "app_state \<Rightarrow> food_item \<Rightarrow> bool" where
  "orphaned st item = (categoryId item \<notin> set (map cat_id (categories st)))"

section \<open>AI recipe service\<close>

subsection \<open>Decoded JSON and JavaScript values\<close>

text \<open>
  The values \<open>JSON.parse\<close> returns, and \<open>undefined\<close>, which reading a missing property
  yields. An object is the list of its properties, each key once.
\<close>

datatype jsval =
    JUndefined
  | JNull
  | JBool bool
  | JNum rat
  | JStr string
  | JArr "jsval list"
  | JObj "(string \<times> jsval) list"

text \<open>
  \<open>getProp v k\<close> is \<open>v.k\<close> for the property names this service reads (\<open>id\<close>,
  \<open>title\<close>, \<open>name\<close>, ...): none of them is a property of a string, a number, a boolean
  or an array, and reading any property of \<open>null\<close> or \<open>undefined\<close> throws.
\<close>

fun getProp :: "jsval \<Rightarrow> string \<Rightarrow> error + jsval" where
  "getProp JUndefined k = Inl TypeError"
| "getProp JNull k = Inl TypeError"
| "getProp (JObj kvs) k = Inr (case map_of kvs k of None \<Rightarrow> JUndefined | Some v \<Rightarrow> v)"
| "getProp v k = Inr JUndefined"

fun truthy :: "jsval \<Rightarrow> bool" where
  "truthy JUndefined = False"
| "truthy JNull = False"
| "truthy (JBool b) = b"
| "truthy (JNum r) = (r \<noteq> 0)"
| "truthy (JStr s) = (s \<noteq> [])"
| "truthy (JArr vs) = True"
| "truthy (JObj kvs) = True"

definition orElse :: "jsval \<Rightarrow> jsval \<Rightarrow> jsval" where
  "orElse a b = (if truthy a then a else b)"

text \<open>\<open>[...].includes(v) ? v : d\<close> for a list of texts.\<close>

definition oneOf :: "string list \<Rightarrow> jsval \<Rightarrow> string \<Rightarrow> string" where
  "oneOf allowed v d = (case v of JStr s \<Rightarrow> if s \<in> set allowed then s else d | _ \<Rightarrow> d)"

text \<open>\<open>Array.isArray(v) ? v : d\<close>.\<close>

definition arrayOr :: "jsval \<Rightarrow> jsval list \<Rightarrow> jsval list" where
  "arrayOr v d = (case v of JArr vs \<Rightarrow> vs | _ \<Rightarrow> d)"

subsection \<open>Recipes and ingredients\<close>

text \<open>An ingredient of the inventory as the recipes screen hands it to the service.\<close>

record ingredient =
  u_name :: string
  u_qty :: nat
  u_daysLeft :: int

text \<open>
  A recipe as the service returns it. The properties the parser copies from the decoded
  response keep the decoded value; \<open>matchScore\<close> is absent until the matcher sets it,
  and it is the exact quotient of the two counts (the code stores the nearest double).
\<close>

record recipe =
  r_id :: jsval
  title :: jsval
  difficulty :: string
  time :: jsval
  r_priority :: string
  description :: jsval
  usedIngredients :: "jsval list"
  missingIngredients :: "jsval list"
  instructions :: "jsval list"
  tips :: jsval
  r_source :: string
  matchedIngredients :: "ingredient list"
  matchScore :: "rat option"

subsection \<open>parseRecipeResponse\<close>

text \<open>
  \<open>removeFences marker s\<close> is \<open>s.replace(/marker\s*/g, '')\<close> for a literal marker: every
  occurrence of the marker, from left to right, goes with the white space after it.
\<close>

function removeFences :: "string \<Rightarrow> string \<Rightarrow> string" where
  "removeFences marker [] = []"
| "removeFences marker (c # cs) =
     (if marker \<noteq> [] \<and> startsWith (c # cs) marker
      then removeFences marker (dropWhile isWhitespace (drop (length marker) (c # cs)))
      else c # removeFences marker cs)"
  by pat_completeness auto
termination
proof (relation "measure (\<lambda>(marker, s). length s)")
  show "wf (measure (\<lambda>(marker, s). length s))" by simp
next
  fix marker :: string and c cs
  assume "marker \<noteq> [] \<and> startsWith (c # cs) marker"
  then have "0 < length marker" by simp
  moreover have "length (dropWhile isWhitespace (drop (length marker) (c # cs)))
                   \<le> length (drop (length marker) (c # cs))"
    by (rule length_dropWhile_le)
  ultimately show "((marker, dropWhile isWhitespace (drop (length marker) (c # cs))),
                    (marker, c # cs)) \<in> measure (\<lambda>(marker, s). length s)"
    by (cases "length marker") auto
next
  fix marker :: string and c cs
  show "((marker, cs), (marker, c # cs)) \<in> measure (\<lambda>(marker, s). length s)" by simp
qed

definition backtick :: char where
  "backtick = CHR 0x60"

definition cleanResponse :: "string \<Rightarrow> string" where
  "cleanResponse response =
     trim (removeFences [backtick, backtick, backtick]
            (removeFences ([backtick, backtick, backtick] @ ''json'') response))"

fun indexOf :: "char \<Rightarrow> string \<Rightarrow> nat option" where
  "indexOf c [] = None"
| "indexOf c (x # xs) =
     (if x = c then Some 0 else (case indexOf c xs of None \<Rightarrow> None | Some i \<Rightarrow> Some (Suc i)))"

fun lastIndexOf :: "char \<Rightarrow> string \<Rightarrow> nat option" where
  "lastIndexOf c [] = None"
| "lastIndexOf c (x # xs) =
     (case lastIndexOf c xs of
        Some i \<Rightarrow> Some (Suc i)
      | None \<Rightarrow> if x = c then Some 0 else None)"

definition substring :: "string \<Rightarrow> nat \<Rightarrow> nat \<Rightarrow> string" where
  "substring s start end = take (end - start) (drop start s)"

text \<open>The text handed to \<open>JSON.parse\<close>.\<close>

definition extractJson :: "string \<Rightarrow> string" where
  "extractJson response =
     (let cleanedResponse = cleanResponse response in
      case (indexOf CHR ''['' cleanedResponse, lastIndexOf CHR '']'' cleanedResponse) of
        (Some jsonStartIndex, Some jsonEndIndex) \<Rightarrow>
          if jsonEndIndex > jsonStartIndex
          then substring cleanedResponse jsonStartIndex (jsonEndIndex + 1)
          else cleanedResponse
      | _ \<Rightarrow> cleanedResponse)"

text \<open>\<open>recipe.ingredientsAvailable.map(ing => ing.name || ing)\<close>.\<close>

fun ingredientNames :: "jsval list \<Rightarrow> error + jsval list" where
  "ingredientNames [] = Inr []"
| "ingredientNames (ing # rest) =
     (case getProp ing ''name'' of
        Inl err \<Rightarrow> Inl err
      | Inr nm \<Rightarrow>
          (case ingredientNames rest of
             Inl err \<Rightarrow> Inl err
           | Inr names \<Rightarrow> Inr (orElse nm ing # names)))"

text \<open>
  The object built for one element of the decoded array; \<open>now\<close> is \<open>Date.now()\<close> at
  that element. Reading the first property of a \<open>null\<close> element throws.
\<close>

definition field :: "jsval \<Rightarrow> string \<Rightarrow> jsval" where
  "field v k = (case getProp v k of Inl err \<Rightarrow> JUndefined | Inr x \<Rightarrow> x)"

definition normalizeRecipe :: "nat \<Rightarrow> nat \<Rightarrow> jsval \<Rightarrow> error + recipe" where
  "normalizeRecipe now index r =
     (case getProp r ''id'' of
        Inl err \<Rightarrow> Inl err
      | Inr idv \<Rightarrow>
          (case (case field r ''ingredientsAvailable'' of
                   JArr ings \<Rightarrow> ingredientNames ings
                 | _ \<Rightarrow> Inr (arrayOr (field r ''usedIngredients'') [])) of
             Inl err \<Rightarrow> Inl err
           | Inr used \<Rightarrow>
               Inr \<lparr>r_id = orElse idv (JStr (''ai-recipe-'' @ decimal now @ ''-'' @ decimal index)),
                    title = orElse (field r ''title'') (JStr ''Unavngiven opskrift''),
                    difficulty = oneOf [''easy'', ''medium'', ''hard''] (field r ''difficulty'') ''medium'',
                    time = orElse (field r ''time'') (JStr ''30 min''),
                    r_priority = oneOf [''high'', ''medium'', ''low''] (field r ''priority'') ''medium'',
                    description = orElse (field r ''description'')
                                    (JStr (''L'' @ ae @ ''kker hjemmelavet ret'')),
                    usedIngredients = used,
                    missingIngredients = arrayOr (field r ''missingIngredients'') [],
                    instructions = arrayOr (field r ''instructions'')
                                     [JStr ''Se online opskrift for instruktioner''],
                    tips = orElse (field r ''tips'') (JStr ''''),
                    r_source = ''AI Generated'',
                    matchedIngredients = [],
                    matchScore = None\<rparr>))"

fun normalizeAll :: "(nat \<Rightarrow> nat) \<Rightarrow> nat \<Rightarrow> jsval list \<Rightarrow> error + recipe list" where
  "normalizeAll clockAt index [] = Inr []"
| "normalizeAll clockAt index (r # rest) =
     (case normalizeRecipe (clockAt index) index r of
        Inl err \<Rightarrow> Inl err
      | Inr x \<Rightarrow>
          (case normalizeAll clockAt (Suc index) rest of
             Inl err \<Rightarrow> Inl err
           | Inr xs \<Rightarrow> Inr (x # xs)))"

text \<open>
  \<open>JSON_parse\<close> is the platform's decoder, \<open>None\<close> when it throws; \<open>clockAt k\<close> is
  \<open>Date.now()\<close> at the \<open>k\<close>-th element. Whatever is thrown inside the \<open>try\<close> block
  is caught and replaced by the one error of the parser.
\<close>

definition parseRecipeResponse ::
  "(string \<Rightarrow> jsval option) \<Rightarrow> (nat \<Rightarrow> nat) \<Rightarrow> string \<Rightarrow> error + recipe list" where
  "parseRecipeResponse JSON_parse clockAt response =
     (case JSON_parse (extractJson response) of
        None \<Rightarrow> Inl CouldNotUnderstand
      | Some recipes \<Rightarrow>
          (let recipeArray = (case recipes of JArr rs \<Rightarrow> rs | _ \<Rightarrow> [recipes]) in
           case normalizeAll clockAt 0 recipeArray of
             Inl err \<Rightarrow> Inl CouldNotUnderstand
           | Inr rs \<Rightarrow> Inr rs))"

subsection \<open>getFallbackRecipes\<close>

text \<open>
  The argument is the caller's \<open>ingredients\<close>, \<open>None\<close> when it is \<open>undefined\<close> or
  \<open>null\<close>; \<open>safeIngredients\<close> is the empty list then.
\<close>

definition ee :: string where "ee = [CHR 0xE9]"

definition getFallbackRecipes :: "ingredient list option \<Rightarrow> recipe list" where
  "getFallbackRecipes ingredients =
     (let safeIngredients = (case ingredients of None \<Rightarrow> [] | Some ings \<Rightarrow> ings) in
      [\<lparr>r_id = JStr ''fallback-1'',
        title = JStr (''Hurtig Gr'' @ oe @ ''ntsagsret''),
        difficulty = ''easy'',
        time = JStr ''20 min'',
        r_priority = ''high'',
        description = JStr (''En nem og hurtig ret der bruger dine tilg'' @ ae @ ''ngelige gr''
                            @ oe @ ''ntsager.''),
        usedIngredients = map (\<lambda>ing. JStr (u_name ing)) (take 3 safeIngredients),
        missingIngredients = [],
        instructions =
          [JStr (''Vask og sk'' @ ae @ ''r gr'' @ oe @ ''ntsagerne i mindre stykker''),
           JStr ''Varm olie op i en pande ved medium varme'',
           JStr (''Tils'' @ ae @ ''t gr'' @ oe @ ''ntsagerne og saut'' @ ee @ ''r i 5-7 minutter''),
           JStr ''Krydre efter smag med salt og peber'',
           JStr ''Server varmt''],
        tips = JStr (''Tilf'' @ oe @ ''j krydderier eller krydderurter for ekstra smag''),
        r_source = ''Fallback Recipe'',
        matchedIngredients = take 3 safeIngredients,
        matchScore = None\<rparr>,
       \<lparr>r_id = JStr ''fallback-2'',
        title = JStr ''Simpel Suppe'',
        difficulty = ''easy'',
        time = JStr ''30 min'',
        r_priority = ''medium'',
        description = JStr (''En varmende suppe der kan bruge de fleste gr'' @ oe @ ''ntsager.''),
        usedIngredients = map (\<lambda>ing. JStr (u_name ing)) (take 4 safeIngredients),
        missingIngredients = [JStr ''bouillon''],
        instructions =
          [JStr (''Sk'' @ ae @ ''r alle gr'' @ oe @ ''ntsager i tern''),
           JStr ''Bring bouillon i kog i en gryde'',
           JStr (''Tils'' @ ae @ ''t gr'' @ oe @ ''ntsagerne og lad koge i 15-20 minutter''),
           JStr ''Krydre efter smag'',
           JStr (''Server med br'' @ oe @ ''d'')],
        tips = JStr ''Blend suppen for en cremet konsistens'',
        r_source = ''Fallback Recipe'',
        matchedIngredients = take 4 safeIngredients,
        matchScore = None\<rparr>])"

subsection \<open>matchRecipesWithIngredients\<close>

definition overlaps :: "string \<Rightarrow> string \<Rightarrow> bool" where
  "overlaps recipeIng userName =
     (includesStr (toLowerCase recipeIng) (toLowerCase userName) \<or>
      includesStr (toLowerCase userName) (toLowerCase recipeIng))"

text \<open>
  \<open>recipe.usedIngredients.some(...)\<close> for one inventory item: it stops at the first
  overlap, and \<open>toLowerCase\<close> on an entry that is not a text throws.
\<close>

fun someOverlap :: "jsval list \<Rightarrow> ingredient \<Rightarrow> error + bool" where
  "someOverlap [] userIng = Inr False"
| "someOverlap (JStr recipeIng # rest) userIng =
     (if overlaps recipeIng (u_name userIng) then Inr True else someOverlap rest userIng)"
| "someOverlap (v # rest) userIng = Inl TypeError"

fun filterMatched :: "jsval list \<Rightarrow> ingredient list \<Rightarrow> error + ingredient list" where
  "filterMatched used [] = Inr []"
| "filterMatched used (userIng # rest) =
     (case someOverlap used userIng of
        Inl err \<Rightarrow> Inl err
      | Inr keep \<Rightarrow>
          (case filterMatched used rest of
             Inl err \<Rightarrow> Inl err
           | Inr kept \<Rightarrow> Inr (if keep then userIng # kept else kept)))"

definition matchRecipe :: "ingredient list \<Rightarrow> recipe \<Rightarrow> error + recipe" where
  "matchRecipe userIngredients r =
     (case filterMatched (usedIngredients r) userIngredients of
        Inl err \<Rightarrow> Inl err
      | Inr matched \<Rightarrow>
          Inr (r\<lparr>matchedIngredients := matched,
                 matchScore := Some (of_nat (length matched) /
                                     of_nat (max (length (usedIngredients r)) 1))\<rparr>))"

fun matchRecipesWithIngredients :: "recipe list \<Rightarrow> ingredient list \<Rightarrow> error + recipe list" where
  "matchRecipesWithIngredients [] userIngredients = Inr []"
| "matchRecipesWithIngredients (r # rest) userIngredients =
     (case matchRecipe userIngredients r of
        Inl err \<Rightarrow> Inl err
      | Inr x \<Rightarrow>
          (case matchRecipesWithIngredients rest userIngredients of
             Inl err \<Rightarrow> Inl err
           | Inr xs \<Rightarrow> Inr (x # xs)))"

subsection \<open>generateRecipeSuggestions\<close>

record ai_config =
  endpoint :: string
  apiKey :: string
  deploymentName :: string
  apiVersion :: string
  enableFallback :: bool

definition validateAIConfig :: "ai_config \<Rightarrow> bool" where
  "validateAIConfig cfg = (\<not> (endpoint cfg = [] \<or> apiKey cfg = [] \<or> deploymentName cfg = []))"

definition isAIEnabled :: "ai_config \<Rightarrow> bool" where
  "isAIEnabled cfg = validateAIConfig cfg"

text \<open>
  \<open>callAzureOpenAI\<close> is what the call to the completion endpoint does with the prompt built
  for this request: the text of the first choice, or the exception it throws (\<open>TimedOut\<close>
  after the timeout, \<open>ApiError\<close> for a response that is not ok, \<open>NetworkError\<close> for a
  rejected \<open>fetch\<close>, \<open>SyntaxError\<close> or \<open>TypeError\<close> for a body without the expected
  shape). The prompt is only handed to that call.
\<close>

definition tryGenerate ::
  "ai_config \<Rightarrow> (string \<Rightarrow> jsval option) \<Rightarrow> (nat \<Rightarrow> nat) \<Rightarrow> (error + string) \<Rightarrow>
   ingredient list option \<Rightarrow> error + recipe list" where
  "tryGenerate cfg JSON_parse clockAt callAzureOpenAI ingredients =
     (case ingredients of
        None \<Rightarrow> Inl NoIngredients
      | Some [] \<Rightarrow> Inl NoIngredients
      | Some (i # is) \<Rightarrow>
          if \<not> isAIEnabled cfg then Inr (getFallbackRecipes ingredients)
          else (case callAzureOpenAI of
                  Inl err \<Rightarrow> Inl err
                | Inr response \<Rightarrow>
                    (case parseRecipeResponse JSON_parse clockAt response of
                       Inl err \<Rightarrow> Inl err
                     | Inr aiRecipes \<Rightarrow> matchRecipesWithIngredients aiRecipes (i # is))))"

definition generateRecipeSuggestions ::
  "ai_config \<Rightarrow> (string \<Rightarrow> jsval option) \<Rightarrow> (nat \<Rightarrow> nat) \<Rightarrow> (error + string) \<Rightarrow>
   ingredient list option \<Rightarrow> error + recipe list" where
  "generateRecipeSuggestions cfg JSON_parse clockAt callAzureOpenAI ingredients =
     (case tryGenerate cfg JSON_parse clockAt callAzureOpenAI ingredients of
        Inr recipes \<Rightarrow> Inr recipes
      | Inl err \<Rightarrow>
          if enableFallback cfg then Inr (getFallbackRecipes ingredients)
          else Inl CouldNotGenerate)"


section \<open>Concrete inputs\<close>

text \<open>
  The object the shopping list screen builds in \<open>handleAddItem\<close> for the name Milk and
  the amount 1L: a name, an amount and the source, nothing else.
\<close>

definition manualMilk :: item_arg where
  "manualMilk =
     \<lparr>i_name = ''Milk'', i_amount = Some ''1L'', i_category = None, i_categoryIcon = None,
      i_priority = None, i_source = Some ''manual'', i_recipeId = None, i_recipeName = None,
      i_essential = None\<rparr>"

definition envAt :: "nat \<Rightarrow> env" where
  "envAt k = \<lparr>clock = 1000 + k, isoNow = ''2023-11-14T22:13:20.00'' @ decimal k @ ''Z'',
              rand = ''k3x9q0a1'' @ decimal k\<rparr>"

text \<open>The entry the first such add creates in an empty list.\<close>

definition storedMilk :: shopping_item where
  "storedMilk =
     \<lparr>itemId = ''shopping-1001-k3x9q0a11'', name = ''Milk'', amount = Some ''1L'',
      category = Some ''Andre'', categoryIcon = Some ''U+1F6D2'', isChecked = False,
      priority = Some Medium, addedDate = ''2023-11-14T22:13:20.001Z'',
      source = Some ''manual'', recipeId = None, recipeName = None, essential = Some False\<rparr>"

text \<open>
  The second recipe of the fallback catalog as \<open>addRecipeToShoppingList\<close> reads it: its
  \<open>missingIngredients\<close> is the array \<open>['bouillon']\<close>.
\<close>

definition fallbackSoup :: recipe_arg where
  "fallbackSoup =
     \<lparr>ra_id = Some ''fallback-2'', ra_title = Some ''Simpel Suppe'',
      ra_missingIngredients = Some [IngText ''bouillon'']\<rparr>"

definition tomatoSoup :: recipe_arg where
  "tomatoSoup =
     \<lparr>ra_id = Some ''recipe-1'', ra_title = Some ''Tomatsuppe'',
      ra_missingIngredients =
        Some [IngObj \<lparr>ing_name = Some ''Tomat'', ing_amount = Some ''4 stk'', ing_essential = Some True\<rparr>,
              IngObj \<lparr>ing_name = Some ''milk'', ing_amount = None, ing_essential = None\<rparr>]\<rparr>"

text \<open>
  A category the user has added (its id is the clock reading at creation) with one item
  in it, beside the two default categories.
\<close>

definition userCategory :: category_rec where
  "userCategory = \<lparr>cat_id = ''1700000000000'', cat_title = ''Skab'', icon = ''U+1F4E6''\<rparr>"

definition rice :: food_item where
  "rice = \<lparr>f_id = ''1700000000500'', f_name = ''Ris'', qty = 1, categoryId = ''1700000000000''\<rparr>"

definition cupboardState :: app_state where
  "cupboardState =
     \<lparr>items = [rice],
      categories = DEFAULT_CATEGORIES @ [userCategory],
      categoryStore = Some (DEFAULT_CATEGORIES @ [userCategory])\<rparr>"

text \<open>The state after the first start: no items, the two default categories.\<close>

definition freshState :: app_state where
  "freshState =
     \<lparr>items = [], categories = DEFAULT_CATEGORIES, categoryStore = Some DEFAULT_CATEGORIES\<rparr>"

text \<open>Configurations: the reference one, and one without endpoint, key and deployment.\<close>

definition referenceConfig :: ai_config where
  "referenceConfig =
     \<lparr>endpoint = ''https://phpe2-mfslft3c-eastus2.openai.azure.com/'', apiKey = ''key'',
      deploymentName = ''gpt-4.1-nano'', apiVersion = ''2024-02-15-preview'',
      enableFallback = True\<rparr>"

definition unconfigured :: ai_config where
  "unconfigured =
     \<lparr>endpoint = '''', apiKey = '''', deploymentName = '''', apiVersion = ''2024-02-15-preview'',
      enableFallback = False\<rparr>"

definition tomato :: ingredient where
  "tomato = \<lparr>u_name = ''Tomat'', u_qty = 2, u_daysLeft = 1\<rparr>"

definition cream :: ingredient where
  "cream = \<lparr>u_name = ''Piskefl'' @ oe @ ''de'', u_qty = 1, u_daysLeft = 3\<rparr>"

text \<open>
  Two responses and a decoder that reads what is sliced from them as \<open>JSON.parse\<close> does:
  an array with one object that has a title only, and an array with one object whose
  \<open>ingredientsAvailable\<close> holds \<open>null\<close>.
\<close>

definition titleOnlyResponse :: string where
  \<open>titleOnlyResponse = ''blah [{"title":"X"}] blah''\<close>

definition nullIngredientResponse :: string where
  \<open>nullIngredientResponse = ''[{"title":"X","ingredientsAvailable":[null]}]''\<close>

definition exampleDecoder :: "string \<Rightarrow> jsval option" where
  \<open>exampleDecoder s =
     (if s = ''[{"title":"X"}]'' then Some (JArr [JObj [(''title'', JStr ''X'')]])
      else if s = ''[{"title":"X","ingredientsAvailable":[null]}]''
      then Some (JArr [JObj [(''title'', JStr ''X''), (''ingredientsAvailable'', JArr [JNull])]])
      else None)\<close>

definition clock0 :: "nat \<Rightarrow> nat" where
  "clock0 k = 1000"

text \<open>A recipe as the parser returns it, with two used ingredients.\<close>

definition creamSoup :: recipe where
  "creamSoup =
     \<lparr>r_id = JStr ''recipe-1'', title = JStr ''Tomatsuppe'', difficulty = ''easy'',
      time = JStr ''30 min'', r_priority = ''high'', description = JStr ''Suppe'',
      usedIngredients = [JStr ''tomater'', JStr (''fl'' @ oe @ ''de''), JStr ''salt''],
      missingIngredients = [], instructions = [JStr ''Kog''], tips = JStr '''',
      r_source = ''AI Generated'', matchedIngredients = [], matchScore = None\<rparr>"



text \<open>
  An add for the name milk without an amount, and a recipe whose one missing ingredient,
  Milk, has a name only: the recipe path stores its entry without an amount.
\<close>

definition noAmountMilk :: item_arg where
  "noAmountMilk = manualMilk\<lparr>i_name := ''milk '', i_amount := None\<rparr>"

definition pancakes :: recipe_arg where
  "pancakes =
     \<lparr>ra_id = Some ''recipe-2'', ra_title = Some ''Pandekager'',
      ra_missingIngredients =
        Some [IngObj \<lparr>ing_name = Some ''Milk'', ing_amount = None, ing_essential = None\<rparr>]\<rparr>"

text \<open>
  A response whose one recipe lists two available ingredients, the second without a name,
  a decoder that reads it as \<open>JSON.parse\<close> does, the recipe the parser makes of it, and
  two more inventory items.
\<close>

definition namelessResponse :: string where
  \<open>namelessResponse =
     ''[{"title":"X","ingredientsAvailable":[{"name":"salt"},{"amount":"2 dl"}]}]''\<close>

definition namelessDecoder :: "string \<Rightarrow> jsval option" where
  "namelessDecoder s =
     (if s = namelessResponse
      then Some (JArr [JObj [(''title'', JStr ''X''),
                             (''ingredientsAvailable'',
                              JArr [JObj [(''name'', JStr ''salt'')],
                                    JObj [(''amount'', JStr ''2 dl'')]])]])
      else None)"

definition namelessRecipe :: recipe where
  "namelessRecipe =
     \<lparr>r_id = JStr ''ai-recipe-1000-0'', title = JStr ''X'', difficulty = ''medium'',
      time = JStr ''30 min'', r_priority = ''medium'',
      description = JStr (''L'' @ ae @ ''kker hjemmelavet ret''),
      usedIngredients = [JStr ''salt'', JObj [(''amount'', JStr ''2 dl'')]],
      missingIngredients = [],
      instructions = [JStr ''Se online opskrift for instruktioner''],
      tips = JStr '''', r_source = ''AI Generated'', matchedIngredients = [], matchScore = None\<rparr>"

definition saltIng :: ingredient where
  "saltIng = \<lparr>u_name = ''Salt'', u_qty = 1, u_daysLeft = 300\<rparr>"

definition riceIng :: ingredient where
  "riceIng = \<lparr>u_name = ''Ris'', u_qty = 1, u_daysLeft = 90\<rparr>"


definition bouillon :: item_arg where
  "bouillon = manualMilk\<lparr>i_name := ''Bouillon'', i_amount := Some ''1 stk''\<rparr>"





section \<open>Properties of the shopping list service\<close>

subsection \<open>Names and keys\<close>

lemma isWhitespace_lowerChar: "isWhitespace (lowerChar c) = isWhitespace c"
  unfolding lowerChar_def
  by (auto simp: isWhitespace_def upperChars_def lowerChars_def
           split: option.splits dest!: map_of_SomeD)

lemma toLowerCase_dropWhile:
  "toLowerCase (dropWhile isWhitespace s) = dropWhile isWhitespace (toLowerCase s)"
  by (induction s) (simp_all add: toLowerCase_def isWhitespace_lowerChar)

lemma toLowerCase_trim: "toLowerCase (trim s) = trim (toLowerCase s)"
proof -
  have r: "\<And>t. rev (toLowerCase t) = toLowerCase (rev t)"
    by (simp add: toLowerCase_def rev_map)
  show ?thesis
    unfolding trim_def
    by (metis r toLowerCase_dropWhile)
qed

lemma dropWhile_fixed: "xs = [] \<or> \<not> P (hd xs) \<Longrightarrow> dropWhile P xs = xs"
  by (cases xs) auto

lemma last_dropWhile_keep: "dropWhile P xs \<noteq> [] \<Longrightarrow> last (dropWhile P xs) = last xs"
  by (induction xs) (auto split: if_splits)

lemma trim_trim: "trim (trim s) = trim s"
proof -
  define t where "t = dropWhile isWhitespace s"
  define u where "u = dropWhile isWhitespace (rev t)"
  have tu: "trim s = rev u" by (simp add: trim_def t_def u_def)
  have u_hd: "u = [] \<or> \<not> isWhitespace (hd u)"
    unfolding u_def by (metis hd_dropWhile)
  have t_hd: "t = [] \<or> \<not> isWhitespace (hd t)"
    unfolding t_def by (metis hd_dropWhile)
  have ru_hd: "rev u = [] \<or> \<not> isWhitespace (hd (rev u))"
  proof (cases "u = []")
    case True then show ?thesis by simp
  next
    case False
    then have "last u = last (rev t)" unfolding u_def by (rule last_dropWhile_keep)
    moreover have "rev t \<noteq> []" using False u_def by auto
    ultimately have "last u = hd t" by (simp add: last_rev)
    moreover have "t \<noteq> []" using \<open>rev t \<noteq> []\<close> by simp
    ultimately show ?thesis using t_hd False by (simp add: hd_rev)
  qed
  have "dropWhile isWhitespace (rev u) = rev u" using ru_hd by (rule dropWhile_fixed)
  moreover have "dropWhile isWhitespace u = u" using u_hd by (rule dropWhile_fixed)
  ultimately have "trim (rev u) = rev u"
    by (simp add: trim_def)
  then show ?thesis by (simp only: tu)
qed

lemma nameKey_trim: "nameKey (trim s) = nameKey s"
  by (simp add: nameKey_def toLowerCase_trim trim_trim)

lemma findIndex_None: "(findIndex P xs = None) = (\<forall>x\<in>set xs. \<not> P x)"
  by (induction xs) (auto split: option.splits)

lemma findIndex_Some: "findIndex P xs = Some i \<Longrightarrow> i < length xs \<and> P (xs ! i)"
  by (induction xs arbitrary: i) (auto split: option.splits if_splits)

lemma name_mergeInto: "name (mergeInto e x item) = name x"
  by (simp add: mergeInto_def)

lemma names_merge:
  "i < length xs \<Longrightarrow> map name (xs[i := mergeInto e (xs ! i) item]) = map name xs"
  by (simp add: map_update name_mergeInto list_update_same_conv)

subsection \<open>One entry per name\<close>

lemma addToShoppingList_distinct:
  assumes "distinct (map (\<lambda>x. nameKey (name x)) xs)"
  shows "distinct (map (\<lambda>x. nameKey (name x)) (addToShoppingList e item xs))"
proof (cases "findIndex (\<lambda>existing. nameKey (name existing) = nameKey (i_name item)) xs")
  case None
  then have "\<forall>x\<in>set xs. nameKey (name x) \<noteq> nameKey (i_name item)"
    by (simp add: findIndex_None)
  then show ?thesis using assms None
    by (auto simp: addToShoppingList_def newItem_def nameKey_trim)
next
  case (Some i)
  then have "i < length xs" by (simp add: findIndex_Some)
  then have "map name (addToShoppingList e item xs) = map name xs"
    using Some by (simp add: addToShoppingList_def names_merge)
  then have "map nameKey (map name (addToShoppingList e item xs)) = map nameKey (map name xs)"
    by (rule arg_cong)
  then have "map (\<lambda>x. nameKey (name x)) (addToShoppingList e item xs) =
             map (\<lambda>x. nameKey (name x)) xs"
    by (simp add: comp_def)
  then show ?thesis using assms by simp
qed

lemma addAll_distinct:
  "distinct (map (\<lambda>x. nameKey (name x)) xs) \<Longrightarrow>
   distinct (map (\<lambda>x. nameKey (name x)) (addAll ops xs))"
  by (induction ops xs rule: addAll.induct) (simp_all add: addToShoppingList_distinct)

lemma addAll_from_empty_distinct:
  "distinct (map (\<lambda>x. nameKey (name x)) (addAll ops []))"
  by (rule addAll_distinct) simp


subsection \<open>The merge policy over a sequence of adds\<close>

lemma addAll_snoc: "addAll (ops @ [(e, item)]) l = addToShoppingList e item (addAll ops l)"
  by (induction ops l rule: addAll.induct) simp_all

lemma maxRank_snoc:
  "maxRank k (ops @ [op]) = (if opKey op = k then max (rankArg op) (maxRank k ops) else maxRank k ops)"
  by (simp add: maxRank_def)

lemma anyEssential_snoc:
  "anyEssential k (ops @ [op]) =
     (anyEssential k ops \<or> (opKey op = k \<and> truthyBool (i_essential (snd op))))"
  by (auto simp: anyEssential_def list_ex_iff)

lemma maxRank_none:
  "\<forall>op\<in>set ops. opKey op \<noteq> k \<Longrightarrow> maxRank k ops = 0"
proof -
  assume "\<forall>op\<in>set ops. opKey op \<noteq> k"
  then have "filter (\<lambda>op. opKey op = k) ops = []" by (simp add: filter_empty_conv)
  then show ?thesis by (simp add: maxRank_def)
qed

lemma anyEssential_none:
  "\<forall>op\<in>set ops. opKey op \<noteq> k \<Longrightarrow> \<not> anyEssential k ops"
  by (auto simp: anyEssential_def list_ex_iff)

lemma entryAgrees_other:
  assumes "entryAgrees ops x" and "opKey op \<noteq> nameKey (name x)"
  shows "entryAgrees (ops @ [op]) x"
  using assms by (simp add: entryAgrees_def maxRank_snoc anyEssential_snoc)

lemma rankArg_Some:
  "i_priority item = Some q \<Longrightarrow> priorityOrder (Some q) = Some (rankArg (e, item))"
  by (cases q) (simp_all add: rankArg_def priorityOrder_def)

lemma entryAgrees_new:
  assumes p: "i_priority item = Some q"
    and none: "\<forall>op\<in>set ops. opKey op \<noteq> nameKey (i_name item)"
  shows "entryAgrees (ops @ [(e, item)]) (newItem e item)"
proof -
  have k: "nameKey (name (newItem e item)) = nameKey (i_name item)"
    by (simp add: newItem_def nameKey_trim)
  have ok: "opKey (e, item) = nameKey (i_name item)" by (simp add: opKey_def)
  have e: "truthyBool (essential (newItem e item)) = truthyBool (i_essential item)"
    by (simp add: newItem_def orBool_def truthyBool_def)
  have r: "priorityOrder (priority (newItem e item)) = Some (rankArg (e, item))"
    using rankArg_Some [OF p] by (simp add: newItem_def orPriority_def p)
  show ?thesis
    unfolding entryAgrees_def k
    by (simp add: maxRank_snoc anyEssential_snoc ok e r maxRank_none [OF none]
                  anyEssential_none [OF none])
qed

lemma getHigherPriority_rank:
  assumes "priorityOrder p1 = Some r1" and "priorityOrder p2 = Some r2"
  shows "priorityOrder (getHigherPriority p1 p2) = Some (max r2 r1)"
  using assms by (auto simp: getHigherPriority_def geUndef_def max_def)

lemma entryAgrees_merged:
  assumes p: "i_priority item = Some q"
    and a: "entryAgrees ops x"
    and k: "nameKey (name x) = nameKey (i_name item)"
  shows "entryAgrees (ops @ [(e, item)]) (mergeInto e x item)"
proof -
  have km: "nameKey (name (mergeInto e x item)) = nameKey (i_name item)"
    by (simp add: mergeInto_def k)
  have ok: "opKey (e, item) = nameKey (i_name item)" by (simp add: opKey_def)
  have es: "truthyBool (essential (mergeInto e x item)) =
              (truthyBool (essential x) \<or> truthyBool (i_essential item))"
    by (auto simp: mergeInto_def orBool_def truthyBool_def)
  have r1: "priorityOrder (priority x) = Some (maxRank (nameKey (i_name item)) ops)"
    using a by (simp add: entryAgrees_def k)
  have r2: "priorityOrder (i_priority item) = Some (rankArg (e, item))"
    using rankArg_Some [OF p] by (simp add: p)
  have pr: "priorityOrder (priority (mergeInto e x item)) =
              Some (max (rankArg (e, item)) (maxRank (nameKey (i_name item)) ops))"
    using getHigherPriority_rank [OF r1 r2] by (simp add: mergeInto_def)
  have a1: "truthyBool (essential x) = anyEssential (nameKey (i_name item)) ops"
    using a by (simp add: entryAgrees_def k)
  show ?thesis
    unfolding entryAgrees_def km
    by (simp add: maxRank_snoc anyEssential_snoc ok es pr a1)
qed


lemma mergeInv_step:
  assumes inv: "mergeInv ops l" and p: "i_priority item = Some q"
  shows "mergeInv (ops @ [(e, item)]) (addToShoppingList e item l)"
proof -
  let ?k = "nameKey (i_name item)"
  let ?key = "\<lambda>x. nameKey (name x)"
  have d: "distinct (map ?key l)" using inv by (simp add: mergeInv_def)
  have cov: "\<forall>op\<in>set ops. opKey op \<in> set (map ?key l)"
    using inv by (simp add: mergeInv_def list_all_iff)
  have agr: "\<forall>x\<in>set l. entryAgrees ops x"
    using inv by (simp add: mergeInv_def list_all_iff)
  have ok: "opKey (e, item) = ?k" by (simp add: opKey_def)
  have d': "distinct (map ?key (addToShoppingList e item l))"
    using d by (rule addToShoppingList_distinct)
  show ?thesis
  proof (cases "findIndex (\<lambda>existing. nameKey (name existing) = ?k) l")
    case None
    then have n: "\<forall>x\<in>set l. ?key x \<noteq> ?k" by (simp add: findIndex_None)
    have l': "addToShoppingList e item l = l @ [newItem e item]"
      using None by (simp add: addToShoppingList_def)
    have kn: "?key (newItem e item) = ?k" by (simp add: newItem_def nameKey_trim)
    have none_ops: "\<forall>op\<in>set ops. opKey op \<noteq> ?k"
    proof
      fix op assume "op \<in> set ops"
      then have "opKey op \<in> set (map ?key l)" using cov by blast
      then show "opKey op \<noteq> ?k" using n by auto
    qed
    have c': "\<forall>op\<in>set (ops @ [(e, item)]). opKey op \<in> set (map ?key (l @ [newItem e item]))"
      using cov kn ok by auto
    have a': "\<forall>x\<in>set (l @ [newItem e item]). entryAgrees (ops @ [(e, item)]) x"
    proof
      fix x assume "x \<in> set (l @ [newItem e item])"
      then consider "x \<in> set l" | "x = newItem e item" by auto
      then show "entryAgrees (ops @ [(e, item)]) x"
      proof cases
        case 1
        then have "entryAgrees ops x" and "opKey (e, item) \<noteq> ?key x"
          using agr n ok by auto
        then show ?thesis by (rule entryAgrees_other)
      next
        case 2
        then show ?thesis using entryAgrees_new [OF p none_ops] by simp
      qed
    qed
    show ?thesis
      unfolding mergeInv_def list_all_iff using d' c' a' by (simp only: l') 
  next
    case (Some i)
    then have i: "i < length l" and ki: "?key (l ! i) = ?k"
      using findIndex_Some [OF Some] by simp_all
    let ?m = "mergeInto e (l ! i) item"
    have l': "addToShoppingList e item l = l[i := ?m]"
      using Some by (simp add: addToShoppingList_def)
    have names: "map name (l[i := ?m]) = map name l" using i by (rule names_merge)
    have "map nameKey (map name (l[i := ?m])) = map nameKey (map name l)"
      using names by (rule arg_cong)
    then have keys: "map ?key (l[i := ?m]) = map ?key l" by (simp add: comp_def)
    have "?k \<in> set (map ?key l)" using i ki by (metis length_map nth_map nth_mem)
    then have c': "\<forall>op\<in>set (ops @ [(e, item)]). opKey op \<in> set (map ?key (l[i := ?m]))"
      using cov ok by (auto simp only: keys set_append list.set)
    have a': "\<forall>x\<in>set (l[i := ?m]). entryAgrees (ops @ [(e, item)]) x"
    proof
      fix x assume "x \<in> set (l[i := ?m])"
      then obtain j where j: "j < length l" and x: "x = l[i := ?m] ! j"
        by (metis in_set_conv_nth length_list_update)
      show "entryAgrees (ops @ [(e, item)]) x"
      proof (cases "j = i")
        case True
        have "entryAgrees ops (l ! i)" using agr i by simp
        then have "entryAgrees (ops @ [(e, item)]) ?m"
          using entryAgrees_merged [OF p _ ki] by blast
        then show ?thesis using True x i by simp
      next
        case False
        have xj: "x = l ! j" using False x by simp
        have lj: "j < length (map ?key l)" and li: "i < length (map ?key l)"
          using i j by simp_all
        have "(map ?key l ! j = map ?key l ! i) = (j = i)"
          using d lj li by (rule nth_eq_iff_index_eq)
        then have "map ?key l ! j \<noteq> map ?key l ! i" using False by simp
        then have "?key (l ! j) \<noteq> ?key (l ! i)" using i j by simp
        then have "?key (l ! j) \<noteq> ?k" using ki by simp
        then have "opKey (e, item) \<noteq> ?key x" using ok xj by simp
        moreover have "entryAgrees ops x" using agr j xj by simp
        ultimately show ?thesis by (rule entryAgrees_other [rotated])
      qed
    qed
    show ?thesis
      unfolding mergeInv_def list_all_iff using d' c' a' by (simp only: l')
  qed
qed

text \<open>
  For every sequence of adds that all carry a priority, run on the empty list: the keys
  of the entries are distinct, every add has its entry, and every entry agrees with the
  sequence (essential flag and highest priority).
\<close>

lemma mergeInv_addAll:
  "list_all (\<lambda>op. i_priority (snd op) \<noteq> None) ops \<Longrightarrow> mergeInv ops (addAll ops [])"
proof (induction ops rule: rev_induct)
  case Nil
  then show ?case by (simp add: mergeInv_def)
next
  case (snoc op ops)
  obtain e item where op: "op = (e, item)" by (cases op)
  from snoc.prems obtain q where q: "i_priority item = Some q" by (auto simp: op)
  from snoc have "mergeInv ops (addAll ops [])" by simp
  then have "mergeInv (ops @ [(e, item)]) (addToShoppingList e item (addAll ops []))"
    using q by (rule mergeInv_step)
  then show ?case by (simp only: op addAll_snoc)
qed

lemma addToShoppingList_merge_step:
  assumes "findIndex (\<lambda>existing. nameKey (name existing) = nameKey (i_name item)) currentList = Some i"
  shows "length (addToShoppingList e item currentList) = length currentList \<and>
         amount (addToShoppingList e item currentList ! i) =
           combineAmounts (amount (currentList ! i)) (i_amount item) \<and>
         isChecked (addToShoppingList e item currentList ! i) = False"
proof -
  have "i < length currentList" using findIndex_Some [OF assms] by simp
  then show ?thesis using assms by (simp add: addToShoppingList_def mergeInto_def)
qed

lemma combineAmounts_texts:
  "combineAmounts (Some a) (Some b) = (if a = b then Some a else Some (a @ '' + '' @ b))"
  by (simp add: combineAmounts_def templateStr_def)

subsection \<open>The merge of an add that carries no priority\<close>

text \<open>
  C1. The merge policy says that after any sequence of adds there is one entry per name,
  with the essential flag of any of its adds and the highest priority of all its adds.
  That holds when every add carries a priority (\<open>mergeInv_addAll\<close>). The shopping
  list screen adds an item with a name, an amount and a source only. Adding Milk twice that
  way leaves one entry, unchecked and with its amount unchanged, but its priority is
  \<open>undefined\<close> instead of the medium given at creation, and its essential flag is
  \<open>undefined\<close> as well: the merge compares the rank of the stored priority with
  \<open>undefined\<close> and takes the second argument.
\<close>

theorem addToShoppingList_twice_loses_priority:
  "addAll [(envAt 1, manualMilk), (envAt 2, manualMilk)] [] =
     [storedMilk\<lparr>priority := None, essential := None, addedDate := isoNow (envAt 2)\<rparr>]"
  by code_simp


subsection \<open>The merge of an add that carries no amount\<close>

text \<open>
  C10, as stated, says that the merged amount is the existing amount followed by
  \<open>+ undefined\<close> for every add without an amount that matches an entry. An entry the
  recipe path has stored for an ingredient without an amount has no amount itself; the two
  amounts are then identical, \<open>combineAmounts\<close> returns the first, and the merged amount
  stays absent instead of becoming a text.
\<close>

theorem addToShoppingList_absent_amount_counterexample:
  "map name (snd (addRecipeToShoppingList envAt pancakes [])) = [''Milk''] \<and>
   map amount (snd (addRecipeToShoppingList envAt pancakes [])) = [None] \<and>
   i_amount noAmountMilk = None \<and>
   map name (addToShoppingList (envAt 2) noAmountMilk (snd (addRecipeToShoppingList envAt pancakes [])))
     = [''Milk''] \<and>
   map amount (addToShoppingList (envAt 2) noAmountMilk (snd (addRecipeToShoppingList envAt pancakes [])))
     = [None]"
  by code_simp

text \<open>
  C10, amended. For an add without an amount: if no entry has its name, the new entry gets
  the amount 1 stk; if the entry at index \<open>i\<close> has its name, the default is not used: the
  amount of that entry becomes its former amount followed by \<open>+ undefined\<close> when it had
  one, and stays absent when it had none.
\<close>

theorem addToShoppingList_absent_amount:
  assumes "i_amount item = None"
  shows "(findIndex (\<lambda>existing. nameKey (name existing) = nameKey (i_name item)) currentList = None
            \<longrightarrow> amount (last (addToShoppingList e item currentList)) = Some ''1 stk'') \<and>
         (\<forall>i. findIndex (\<lambda>existing. nameKey (name existing) = nameKey (i_name item)) currentList = Some i
            \<longrightarrow> amount (addToShoppingList e item currentList ! i) =
                  (case amount (currentList ! i) of
                     None \<Rightarrow> None
                   | Some a \<Rightarrow> Some (a @ '' + undefined'')))"
proof (intro conjI impI allI)
  assume "findIndex (\<lambda>existing. nameKey (name existing) = nameKey (i_name item)) currentList = None"
  then show "amount (last (addToShoppingList e item currentList)) = Some ''1 stk''"
    using assms by (simp add: addToShoppingList_def newItem_def orDefault_def)
next
  fix i
  assume h: "findIndex (\<lambda>existing. nameKey (name existing) = nameKey (i_name item)) currentList = Some i"
  then have "i < length currentList" using findIndex_Some by blast
  then show "amount (addToShoppingList e item currentList ! i) =
               (case amount (currentList ! i) of
                  None \<Rightarrow> None
                | Some a \<Rightarrow> Some (a @ '' + undefined''))"
    using h assms
    by (simp add: addToShoppingList_def mergeInto_def combineAmounts_def templateStr_def
             split: option.splits)
qed

theorem addToShoppingList_absent_amount_witness:
  "amount (last (addToShoppingList (envAt 2) noAmountMilk [])) = Some ''1 stk'' \<and>
   amount (addToShoppingList (envAt 2) noAmountMilk [storedMilk] ! 0) = Some ''1L + undefined'' \<and>
   amount (addToShoppingList (envAt 2) noAmountMilk [storedMilk\<lparr>amount := None\<rparr>] ! 0) = None"
proof -
  have a: "i_amount noAmountMilk = None"
    by (simp add: noAmountMilk_def)
  have f0: "findIndex (\<lambda>existing. nameKey (name existing) = nameKey (i_name noAmountMilk)) [] = None"
    by simp
  have f1: "findIndex (\<lambda>existing. nameKey (name existing) = nameKey (i_name noAmountMilk))
              [storedMilk] = Some 0"
    by code_simp
  have f2: "findIndex (\<lambda>existing. nameKey (name existing) = nameKey (i_name noAmountMilk))
              [storedMilk\<lparr>amount := None\<rparr>] = Some 0"
    by code_simp
  have 0: "amount (last (addToShoppingList (envAt 2) noAmountMilk [])) = Some ''1 stk''"
    using addToShoppingList_absent_amount [OF a, of "[]" "envAt 2"] f0 by blast
  have "amount (addToShoppingList (envAt 2) noAmountMilk [storedMilk] ! 0) =
          (case amount ([storedMilk] ! 0) of None \<Rightarrow> None | Some a \<Rightarrow> Some (a @ '' + undefined''))"
    using addToShoppingList_absent_amount [OF a, of "[storedMilk]" "envAt 2"] f1 by blast
  then have 1: "amount (addToShoppingList (envAt 2) noAmountMilk [storedMilk] ! 0) =
                  Some ''1L + undefined''"
    by (simp add: storedMilk_def)
  have "amount (addToShoppingList (envAt 2) noAmountMilk [storedMilk\<lparr>amount := None\<rparr>] ! 0) =
          (case amount ([storedMilk\<lparr>amount := None\<rparr>] ! 0) of
             None \<Rightarrow> None | Some a \<Rightarrow> Some (a @ '' + undefined''))"
    using addToShoppingList_absent_amount [OF a, of "[storedMilk\<lparr>amount := None\<rparr>]" "envAt 2"] f2
    by blast
  then have 2: "amount (addToShoppingList (envAt 2) noAmountMilk [storedMilk\<lparr>amount := None\<rparr>] ! 0) = None"
    by simp
  show ?thesis using 0 1 2 by simp
qed

subsection \<open>Adding the missing ingredients of a recipe\<close>

lemma addRecipeToShoppingList_nothing_missing:
  assumes "ra_missingIngredients recipe = None \<or> ra_missingIngredients recipe = Some []"
  shows "addRecipeToShoppingList envs recipe stored = (Inl NoMissingIngredients, stored)"
  using assms by (auto simp: addRecipeToShoppingList_def)

lemma addIngredients_named:
  assumes "\<forall>m\<in>set ms. ingName m \<noteq> None"
  shows "\<exists>l n. addIngredients envs recipe k ms cur c = Inr (l, n) \<and>
               length l + c = length cur + n \<and> c \<le> n"
  using assms
proof (induction ms arbitrary: k cur c)
  case Nil
  then show ?case by simp
next
  case (Cons m ms)
  then obtain nm where nm: "ingName m = Some nm" by auto
  let ?item = "recipeItem recipe m nm"
  show ?case
  proof (cases "findIndex (\<lambda>existing. nameKey (name existing) = nameKey (i_name ?item)) cur")
    case None
    from Cons.prems have "\<forall>m\<in>set ms. ingName m \<noteq> None" by simp
    from Cons.IH [OF this, of "Suc k" "cur @ [newRecipeItem (envs k) ?item]" "Suc c"]
    obtain l n where
      "addIngredients envs recipe (Suc k) ms (cur @ [newRecipeItem (envs k) ?item]) (Suc c) = Inr (l, n)"
      "length l + Suc c = length (cur @ [newRecipeItem (envs k) ?item]) + n" "Suc c \<le> n"
      by blast
    then show ?thesis using nm None by (simp add: Let_def)
  next
    case (Some i)
    from Cons.prems have "\<forall>m\<in>set ms. ingName m \<noteq> None" by simp
    from Cons.IH [OF this, of "Suc k" "cur[i := mergeInto (envs k) (cur ! i) ?item]" c]
    obtain l n where
      "addIngredients envs recipe (Suc k) ms (cur[i := mergeInto (envs k) (cur ! i) ?item]) c = Inr (l, n)"
      "length l + c = length (cur[i := mergeInto (envs k) (cur ! i) ?item]) + n" "c \<le> n"
      by blast
    then show ?thesis using nm Some by (simp add: Let_def)
  qed
qed

text \<open>
  For a recipe all of whose missing ingredients carry a name the call returns, and
  \<open>addedCount\<close> is the number of entries the list has gained, \<open>totalItems\<close> its length.
\<close>

lemma addRecipeToShoppingList_named:
  assumes "ra_missingIngredients recipe = Some (m # ms)"
    and "\<forall>x\<in>set (m # ms). ingName x \<noteq> None"
  shows "\<exists>l n. addRecipeToShoppingList envs recipe stored =
                 (Inr \<lparr>success = True, addedCount = n, totalItems = length l\<rparr>, l) \<and>
               length l = length stored + n"
proof -
  from addIngredients_named [OF assms(2), of envs recipe 0 stored 0]
  obtain l n where "addIngredients envs recipe 0 (m # ms) stored 0 = Inr (l, n)"
    "length l + 0 = length stored + n" by blast
  then show ?thesis using assms(1) by (simp add: addRecipeToShoppingList_def)
qed

text \<open>
  C6. A recipe without missing ingredients is rejected and the store stays as it was (the
  two lemmas above cover that and the recipes whose ingredients all have a name). The claim
  also says that for every recipe with a non-empty list the call returns the two counts.
  The second recipe of the fallback catalog lists its missing ingredient as the text
  bouillon; the recipes screen shows the button for it, and the call throws a
  \<open>TypeError\<close> there, whatever the store holds.
\<close>

theorem addRecipeToShoppingList_fallback_soup_throws:
  "addRecipeToShoppingList envs fallbackSoup stored = (Inl TypeError, stored)"
  by (simp add: addRecipeToShoppingList_def fallbackSoup_def)

subsection \<open>Sorting with a comparator\<close>







subsection \<open>The comparator of the items\<close>




subsection \<open>Grouping\<close>






























section \<open>Properties of the category operations\<close>

lemma deleteCategory_removes:
  "cid \<notin> set (map cat_id (fst (deleteCategory cid store)))"
  by (auto simp: deleteCategory_def Let_def)

lemma removeCategory_reassigns:
  "set (map categoryId (items (removeCategory cid st))) \<subseteq>
     insert ''pantry'' (set (map categoryId (items st)) - {cid})"
  by (auto simp: removeCategory_def Let_def split: prod.splits)

lemma screenDeleteCategory_default:
  "isDefaultCategory cid \<Longrightarrow> screenDeleteCategory cid st = st"
  by (simp add: screenDeleteCategory_def)

text \<open>
  C4. Deleting a category the user has added, through the category management modal, with
  one item in it: the category record is filtered out and saved first, and the item is then
  given the category id pantry. No category has that id (the two defaults are fridge and
  freezer, an added category gets the clock reading as its id), so the item references a
  category that is not in the category list.
\<close>

theorem removeCategory_leaves_orphan:
  "items (modalDeleteCategory ''1700000000000'' cupboardState) = [rice\<lparr>categoryId := ''pantry''\<rparr>] \<and>
   map cat_id (categories (modalDeleteCategory ''1700000000000'' cupboardState)) = [''fridge'', ''freezer''] \<and>
   orphaned (modalDeleteCategory ''1700000000000'' cupboardState) (rice\<lparr>categoryId := ''pantry''\<rparr>)"
  by (simp add: modalDeleteCategory_def removeCategory_def deleteCategory_def loadCategories_def
                cupboardState_def DEFAULT_CATEGORIES_def userCategory_def rice_def orphaned_def Let_def)

text \<open>
  C5. The delete button of the category management modal is rendered for every category,
  and neither \<open>removeCategory\<close> nor \<open>deleteCategory\<close> looks at the id: deleting freezer
  there removes it from the list and from the store. (The categories screen renders no
  delete button for the two defaults: \<open>screenDeleteCategory_default\<close>.)
\<close>

theorem removeCategory_deletes_default:
  "map cat_id (categories (modalDeleteCategory ''freezer'' freshState)) = [''fridge''] \<and>
   map_option (map cat_id) (categoryStore (modalDeleteCategory ''freezer'' freshState)) = Some [''fridge''] \<and>
   map cat_id (fst (deleteCategory ''freezer'' (Some DEFAULT_CATEGORIES))) = [''fridge'']"
  by (simp add: modalDeleteCategory_def removeCategory_def deleteCategory_def loadCategories_def
                freshState_def DEFAULT_CATEGORIES_def Let_def)

section \<open>Properties of the recipe service\<close>

subsection \<open>The parser\<close>

lemma extractJson_titleOnly: \<open>extractJson titleOnlyResponse = ''[{"title":"X"}]''\<close>
  by code_simp

lemma extractJson_nullIngredient: "extractJson nullIngredientResponse = nullIngredientResponse"
  by code_simp

text \<open>
  The scenario of the spec: the commentary around the array is cut off, and the one
  decoded object with a title only becomes one recipe with every other field at its default.
\<close>

lemma parseRecipeResponse_title_only:
  assumes \<open>JSON_parse ''[{"title":"X"}]'' = Some (JArr [JObj [(''title'', JStr ''X'')]])\<close>
  shows "parseRecipeResponse JSON_parse clockAt titleOnlyResponse =
           Inr [\<lparr>r_id = JStr (''ai-recipe-'' @ decimal (clockAt 0) @ ''-0''),
                 title = JStr ''X'',
                 difficulty = ''medium'',
                 time = JStr ''30 min'',
                 r_priority = ''medium'',
                 description = JStr (''L'' @ ae @ ''kker hjemmelavet ret''),
                 usedIngredients = [],
                 missingIngredients = [],
                 instructions = [JStr ''Se online opskrift for instruktioner''],
                 tips = JStr '''',
                 r_source = ''AI Generated'',
                 matchedIngredients = [],
                 matchScore = None\<rparr>]"
proof -
  have d: "decimal 0 = ''0''" by (simp add: decimal.simps)
  show ?thesis
    using assms
    by (simp add: parseRecipeResponse_def extractJson_titleOnly normalizeRecipe_def field_def
                  orElse_def oneOf_def arrayOr_def d)
qed

text \<open>
  An element that is an object is normalized, whatever its fields hold, unless its
  \<open>ingredientsAvailable\<close> is an array with a \<open>null\<close> entry.
\<close>

lemma ingredientNames_defined:
  "JNull \<notin> set ings \<Longrightarrow> JUndefined \<notin> set ings \<Longrightarrow> \<exists>names. ingredientNames ings = Inr names"
proof (induction ings)
  case Nil
  then show ?case by simp
next
  case (Cons ing rest)
  then obtain names where n: "ingredientNames rest = Inr names" by auto
  from Cons.prems have "ing \<noteq> JNull" "ing \<noteq> JUndefined" by auto
  then obtain nm where "getProp ing ''name'' = Inr nm" by (cases ing) auto
  then show ?case using n by simp
qed

lemma normalizeRecipe_object:
  assumes "\<forall>ings. map_of kvs ''ingredientsAvailable'' = Some (JArr ings) \<longrightarrow>
             JNull \<notin> set ings \<and> JUndefined \<notin> set ings"
  shows "\<exists>x. normalizeRecipe now index (JObj kvs) = Inr x"
proof (cases "\<exists>ings. map_of kvs ''ingredientsAvailable'' = Some (JArr ings)")
  case True
  then obtain ings where i: "map_of kvs ''ingredientsAvailable'' = Some (JArr ings)" by blast
  then have "JNull \<notin> set ings" "JUndefined \<notin> set ings" using assms by blast+
  then obtain names where "ingredientNames ings = Inr names"
    using ingredientNames_defined by blast
  then show ?thesis using i by (simp add: normalizeRecipe_def field_def)
next
  case False
  then show ?thesis
    by (auto simp: normalizeRecipe_def field_def split: option.splits jsval.splits)
qed

text \<open>A decoding failure is the parser's error.\<close>

lemma parseRecipeResponse_undecodable:
  "JSON_parse (extractJson response) = None \<Longrightarrow>
   parseRecipeResponse JSON_parse clockAt response = Inl CouldNotUnderstand"
  by (simp add: parseRecipeResponse_def)

text \<open>
  C2. The claim says that a single malformed field of one element never fails the whole
  parse. A response that is well-formed JSON, one object whose \<open>ingredientsAvailable\<close>
  array holds \<open>null\<close>, is decoded, and the normalization then reads \<open>name\<close> from
  \<open>null\<close>: the exception is caught and the parser throws its error for the whole
  response.
\<close>

theorem parseRecipeResponse_null_ingredient_fails:
  assumes "JSON_parse nullIngredientResponse =
             Some (JArr [JObj [(''title'', JStr ''X''), (''ingredientsAvailable'', JArr [JNull])]])"
  shows "parseRecipeResponse JSON_parse clockAt nullIngredientResponse = Inl CouldNotUnderstand"
  using assms
  by (simp add: parseRecipeResponse_def extractJson_nullIngredient normalizeRecipe_def field_def)

theorem parseRecipeResponse_null_ingredient_fails_witness:
  "exampleDecoder nullIngredientResponse =
     Some (JArr [JObj [(''title'', JStr ''X''), (''ingredientsAvailable'', JArr [JNull])]]) \<and>
   parseRecipeResponse exampleDecoder clock0 nullIngredientResponse = Inl CouldNotUnderstand"
proof -
  have h: "exampleDecoder nullIngredientResponse =
     Some (JArr [JObj [(''title'', JStr ''X''), (''ingredientsAvailable'', JArr [JNull])]])"
    by (simp add: exampleDecoder_def nullIngredientResponse_def)
  show ?thesis
    using h parseRecipeResponse_null_ingredient_fails [of exampleDecoder clock0] by simp
qed

subsection \<open>The matcher\<close>

lemma someOverlap_texts:
  assumes "\<forall>v\<in>set used. \<exists>s. v = JStr s"
  shows "someOverlap used userIng =
           Inr (\<exists>s. JStr s \<in> set used \<and> overlaps s (u_name userIng))"
  using assms
proof (induction used)
  case Nil
  then show ?case by simp
next
  case (Cons v used)
  then obtain s where v: "v = JStr s" by auto
  from Cons have "someOverlap used userIng =
           Inr (\<exists>s. JStr s \<in> set used \<and> overlaps s (u_name userIng))" by simp
  then show ?case using v by auto
qed

lemma filterMatched_texts:
  assumes "\<forall>v\<in>set used. \<exists>s. v = JStr s"
  shows "filterMatched used userIngredients =
           Inr (filter (\<lambda>u. \<exists>s. JStr s \<in> set used \<and> overlaps s (u_name u)) userIngredients)"
  by (induction userIngredients) (simp_all add: someOverlap_texts [OF assms])

text \<open>The two tests of the matcher are tests for a substring.\<close>

lemma startsWith_iff: "startsWith s w = (\<exists>q. s = w @ q)"
  by (induction s w rule: startsWith.induct) auto

lemma includesStr_iff: "includesStr s w = (\<exists>p q. s = p @ w @ q)"
proof (induction s)
  case Nil
  then show ?case by auto
next
  case (Cons c cs)
  show ?case
  proof
    assume "includesStr (c # cs) w"
    then consider "startsWith (c # cs) w" | "includesStr cs w" by auto
    then show "\<exists>p q. c # cs = p @ w @ q"
    proof cases
      case 1
      then obtain q where "c # cs = w @ q" using startsWith_iff by blast
      then have "c # cs = [] @ w @ q" by simp
      then show ?thesis by blast
    next
      case 2
      then obtain p q where "cs = p @ w @ q" using Cons.IH by blast
      then have "c # cs = (c # p) @ w @ q" by simp
      then show ?thesis by blast
    qed
  next
    assume "\<exists>p q. c # cs = p @ w @ q"
    then obtain p q where e: "c # cs = p @ w @ q" by blast
    show "includesStr (c # cs) w"
    proof (cases p)
      case Nil
      then have "c # cs = w @ q" using e by simp
      then have "startsWith (c # cs) w" using startsWith_iff by blast
      then show ?thesis by simp
    next
      case (Cons a p')
      then have "cs = p' @ w @ q" using e by simp
      then have "includesStr cs w" using Cons.IH by blast
      then show ?thesis by simp
    qed
  qed
qed

lemma overlaps_iff:
  "overlaps recipeIng userName =
     ((\<exists>p q. toLowerCase recipeIng = p @ toLowerCase userName @ q) \<or>
      (\<exists>p q. toLowerCase userName = p @ toLowerCase recipeIng @ q))"
  by (simp add: overlaps_def includesStr_iff)

text \<open>
  For recipes whose used ingredients are all texts, the matcher returns the recipes in
  their order, each with \<open>matchedIngredients\<close> set to the inventory items (in inventory
  order) whose name overlaps one of the used ingredients, and \<open>matchScore\<close> set to
  their number divided by the number of used ingredients or by 1 if there is none; nothing
  else of a recipe changes.
\<close>

lemma matchRecipesWithIngredients_texts:
  assumes "\<forall>r\<in>set recipes. \<forall>v\<in>set (usedIngredients r). \<exists>s. v = JStr s"
  shows "matchRecipesWithIngredients recipes userIngredients =
           Inr (map (\<lambda>r. r\<lparr>matchedIngredients :=
                               filter (\<lambda>u. \<exists>s. JStr s \<in> set (usedIngredients r) \<and>
                                               overlaps s (u_name u)) userIngredients,
                             matchScore :=
                               Some (of_nat (length (filter (\<lambda>u. \<exists>s. JStr s \<in> set (usedIngredients r) \<and>
                                               overlaps s (u_name u)) userIngredients)) /
                                     of_nat (max (length (usedIngredients r)) 1))\<rparr>)
                    recipes)"
  using assms
proof (induction recipes)
  case Nil
  then show ?case by simp
next
  case (Cons r recipes)
  then have u: "\<forall>v\<in>set (usedIngredients r). \<exists>s. v = JStr s" by simp
  from Cons have rest: "matchRecipesWithIngredients recipes userIngredients =
           Inr (map (\<lambda>r. r\<lparr>matchedIngredients :=
                               filter (\<lambda>u. \<exists>s. JStr s \<in> set (usedIngredients r) \<and>
                                               overlaps s (u_name u)) userIngredients,
                             matchScore :=
                               Some (of_nat (length (filter (\<lambda>u. \<exists>s. JStr s \<in> set (usedIngredients r) \<and>
                                               overlaps s (u_name u)) userIngredients)) /
                                     of_nat (max (length (usedIngredients r)) 1))\<rparr>)
                    recipes)" by simp
  show ?case
    by (simp add: matchRecipe_def filterMatched_texts [OF u] rest)
qed

lemma matchRecipesWithIngredients_texts_example:
  "matchRecipesWithIngredients [creamSoup] [tomato, riceIng, cream] =
     Inr [creamSoup\<lparr>matchedIngredients := [tomato, cream], matchScore := Some (2 / 3)\<rparr>]"
proof -
  have h: "\<forall>r\<in>set [creamSoup]. \<forall>v\<in>set (usedIngredients r). \<exists>s. v = JStr s"
    by (simp add: creamSoup_def)
  have o1: "overlaps ''tomater'' (u_name tomato)" by code_simp
  have o2: "overlaps (''fl'' @ oe @ ''de'') (u_name cream)" by code_simp
  have n1: "\<not> overlaps ''tomater'' (u_name riceIng)" by code_simp
  have n2: "\<not> overlaps (''fl'' @ oe @ ''de'') (u_name riceIng)" by code_simp
  have n3: "\<not> overlaps ''salt'' (u_name riceIng)" by code_simp
  have u: "usedIngredients creamSoup = [JStr ''tomater'', JStr (''fl'' @ oe @ ''de''), JStr ''salt'']"
    by (simp add: creamSoup_def)
  have f: "filter (\<lambda>u. \<exists>s. JStr s \<in> set (usedIngredients creamSoup) \<and> overlaps s (u_name u))
             [tomato, riceIng, cream] = [tomato, cream]"
    using o1 o2 n1 n2 n3 by (auto simp: u)
  note t = matchRecipesWithIngredients_texts [OF h, of "[tomato, riceIng, cream]"]
  have "matchRecipesWithIngredients [creamSoup] [tomato, riceIng, cream] =
          Inr [creamSoup\<lparr>matchedIngredients := [tomato, cream],
                 matchScore := Some (of_nat (length [tomato, cream]) /
                                     of_nat (max (length (usedIngredients creamSoup)) 1))\<rparr>]"
    using t [unfolded list.map f] by simp
  then show ?thesis
    by (simp add: u)
qed

text \<open>
  C8. The claim holds for the recipes whose used ingredients are texts (the lemmas above).
  The parser hands on an available ingredient that has no name as the decoded object
  (\<open>ing.name || ing\<close>). For the response below it returns a recipe whose used
  ingredients are the text salt and such an object. With Tomat in the inventory the
  matcher tests salt, finds no overlap, goes on to the object and calls \<open>toLowerCase\<close>
  on it: a \<open>TypeError\<close> instead of the annotated recipe with no matched item. With
  Salt in the inventory the test stops at the first entry and the recipe is annotated.
  In the orchestrator the exception reaches the handler, and the caller gets the fallback
  catalog in place of the generated recipe.
\<close>

theorem matchRecipesWithIngredients_nameless_ingredient_throws:
  "parseRecipeResponse namelessDecoder clock0 namelessResponse = Inr [namelessRecipe] \<and>
   matchRecipesWithIngredients [namelessRecipe] [tomato] = Inl TypeError \<and>
   matchRecipesWithIngredients [namelessRecipe] [saltIng] =
     Inr [namelessRecipe\<lparr>matchedIngredients := [saltIng], matchScore := Some (1 / 2)\<rparr>] \<and>
   generateRecipeSuggestions referenceConfig namelessDecoder clock0 (Inr namelessResponse)
     (Some [tomato]) = Inr (getFallbackRecipes (Some [tomato]))"
  by code_simp

subsection \<open>The orchestrator\<close>

lemma tryGenerate_empty:
  "ingredients = None \<or> ingredients = Some [] \<Longrightarrow>
   tryGenerate cfg JSON_parse clockAt callAzureOpenAI ingredients = Inl NoIngredients"
  by (auto simp: tryGenerate_def)

text \<open>
  C3, as stated, at a request with an empty ingredient list: generation is not configured
  and fallback is disabled, and the call throws the error instead of returning the
  fallback catalog. The check of the ingredient list comes before the check of the
  configuration, and its exception reaches the handler that looks at the fallback switch.
\<close>

theorem generateRecipeSuggestions_unconfigured_empty_counterexample:
  "\<not> isAIEnabled unconfigured \<and>
   generateRecipeSuggestions unconfigured exampleDecoder clock0 (Inl TimedOut) (Some []) =
     Inl CouldNotGenerate \<and>
   generateRecipeSuggestions unconfigured exampleDecoder clock0 (Inl TimedOut) (Some []) \<noteq>
     Inr (getFallbackRecipes (Some []))"
  by (simp add: generateRecipeSuggestions_def tryGenerate_def isAIEnabled_def validateAIConfig_def
                unconfigured_def)

text \<open>
  C3, amended. For a request with a non-empty ingredient list: if generation is not
  configured, or the generation call fails (the endpoint call throws, or the parser rejects
  its text) and fallback is enabled, the result is the fallback catalog for the
  ingredients; if generation is configured, the call fails and fallback is disabled, the
  result is the error and no recipes. For a request with an empty or missing list the
  result is the fallback catalog if fallback is enabled and the error otherwise.
\<close>

theorem generateRecipeSuggestions_failure_policy:
  "(ingredients = Some (i # is) \<longrightarrow>
      ((\<not> isAIEnabled cfg \<or>
        (((\<exists>err. callAzureOpenAI = Inl err) \<or>
          (\<exists>response err. callAzureOpenAI = Inr response \<and>
                           parseRecipeResponse JSON_parse clockAt response = Inl err)) \<and>
         enableFallback cfg)
        \<longrightarrow> generateRecipeSuggestions cfg JSON_parse clockAt callAzureOpenAI ingredients =
              Inr (getFallbackRecipes ingredients)) \<and>
       (isAIEnabled cfg \<and>
        ((\<exists>err. callAzureOpenAI = Inl err) \<or>
         (\<exists>response err. callAzureOpenAI = Inr response \<and>
                          parseRecipeResponse JSON_parse clockAt response = Inl err)) \<and>
        \<not> enableFallback cfg
        \<longrightarrow> generateRecipeSuggestions cfg JSON_parse clockAt callAzureOpenAI ingredients =
              Inl CouldNotGenerate))) \<and>
   (ingredients = None \<or> ingredients = Some [] \<longrightarrow>
      generateRecipeSuggestions cfg JSON_parse clockAt callAzureOpenAI ingredients =
        (if enableFallback cfg then Inr (getFallbackRecipes ingredients) else Inl CouldNotGenerate))"
proof (intro conjI impI)
  assume n: "ingredients = Some (i # is)"
  assume "\<not> isAIEnabled cfg \<or>
        (((\<exists>err. callAzureOpenAI = Inl err) \<or>
          (\<exists>response err. callAzureOpenAI = Inr response \<and>
                           parseRecipeResponse JSON_parse clockAt response = Inl err)) \<and>
         enableFallback cfg)"
  then show "generateRecipeSuggestions cfg JSON_parse clockAt callAzureOpenAI ingredients =
              Inr (getFallbackRecipes ingredients)"
    using n by (auto simp: generateRecipeSuggestions_def tryGenerate_def)
next
  assume n: "ingredients = Some (i # is)"
  assume "isAIEnabled cfg \<and>
        ((\<exists>err. callAzureOpenAI = Inl err) \<or>
         (\<exists>response err. callAzureOpenAI = Inr response \<and>
                          parseRecipeResponse JSON_parse clockAt response = Inl err)) \<and>
        \<not> enableFallback cfg"
  then show "generateRecipeSuggestions cfg JSON_parse clockAt callAzureOpenAI ingredients =
              Inl CouldNotGenerate"
    using n by (auto simp: generateRecipeSuggestions_def tryGenerate_def)
next
  assume "ingredients = None \<or> ingredients = Some []"
  then show "generateRecipeSuggestions cfg JSON_parse clockAt callAzureOpenAI ingredients =
        (if enableFallback cfg then Inr (getFallbackRecipes ingredients) else Inl CouldNotGenerate)"
    by (simp add: generateRecipeSuggestions_def tryGenerate_empty)
qed

theorem generateRecipeSuggestions_failure_policy_witness:
  "isAIEnabled referenceConfig \<and> enableFallback referenceConfig \<and>
   generateRecipeSuggestions referenceConfig exampleDecoder clock0 (Inl TimedOut) (Some [tomato]) =
     Inr (getFallbackRecipes (Some [tomato])) \<and>
   \<not> enableFallback (referenceConfig\<lparr>enableFallback := False\<rparr>) \<and>
   generateRecipeSuggestions (referenceConfig\<lparr>enableFallback := False\<rparr>) exampleDecoder clock0
     (Inl (ApiError 500 ''Internal Server Error'')) (Some [tomato]) = Inl CouldNotGenerate \<and>
   \<not> isAIEnabled unconfigured \<and>
   generateRecipeSuggestions unconfigured exampleDecoder clock0 (Inl TimedOut) (Some [tomato]) =
     Inr (getFallbackRecipes (Some [tomato]))"
proof -
  have a: "isAIEnabled referenceConfig" "enableFallback referenceConfig"
    by (simp_all add: isAIEnabled_def validateAIConfig_def referenceConfig_def)
  have b: "isAIEnabled (referenceConfig\<lparr>enableFallback := False\<rparr>)"
          "\<not> enableFallback (referenceConfig\<lparr>enableFallback := False\<rparr>)"
    by (simp_all add: isAIEnabled_def validateAIConfig_def referenceConfig_def)
  have c: "\<not> isAIEnabled unconfigured"
    by (simp add: isAIEnabled_def validateAIConfig_def unconfigured_def)
  have 1: "generateRecipeSuggestions referenceConfig exampleDecoder clock0 (Inl TimedOut) (Some [tomato]) =
     Inr (getFallbackRecipes (Some [tomato]))"
    using generateRecipeSuggestions_failure_policy
            [of "Some [tomato]" tomato "[]" referenceConfig "Inl TimedOut" exampleDecoder clock0] a
    by simp
  have 2: "generateRecipeSuggestions (referenceConfig\<lparr>enableFallback := False\<rparr>) exampleDecoder clock0
     (Inl (ApiError 500 ''Internal Server Error'')) (Some [tomato]) = Inl CouldNotGenerate"
    using generateRecipeSuggestions_failure_policy
            [of "Some [tomato]" tomato "[]" "referenceConfig\<lparr>enableFallback := False\<rparr>"
                "Inl (ApiError 500 ''Internal Server Error'')" exampleDecoder clock0] b
    by simp
  have 3: "generateRecipeSuggestions unconfigured exampleDecoder clock0 (Inl TimedOut) (Some [tomato]) =
     Inr (getFallbackRecipes (Some [tomato]))"
    using generateRecipeSuggestions_failure_policy
            [of "Some [tomato]" tomato "[]" unconfigured "Inl TimedOut" exampleDecoder clock0] c
    by simp
  show ?thesis using a b c 1 2 3 by simp
qed

text \<open>
  C9. With fallback enabled, a call with an empty or a missing ingredient list returns the
  fallback catalog, not the error about the ingredients; the two recipes of that catalog
  have empty lists of used and of matched ingredients.
\<close>

theorem generateRecipeSuggestions_no_ingredients:
  assumes "enableFallback cfg"
    and "ingredients = None \<or> ingredients = Some []"
  shows "generateRecipeSuggestions cfg JSON_parse clockAt callAzureOpenAI ingredients =
           Inr (getFallbackRecipes ingredients) \<and>
         map usedIngredients (getFallbackRecipes ingredients) = [[], []] \<and>
         map matchedIngredients (getFallbackRecipes ingredients) = [[], []]"
proof -
  have "generateRecipeSuggestions cfg JSON_parse clockAt callAzureOpenAI ingredients =
           Inr (getFallbackRecipes ingredients)"
    using assms by (simp add: generateRecipeSuggestions_def tryGenerate_empty)
  moreover have "map usedIngredients (getFallbackRecipes ingredients) = [[], []]"
    using assms(2) by (auto simp: getFallbackRecipes_def)
  moreover have "map matchedIngredients (getFallbackRecipes ingredients) = [[], []]"
    using assms(2) by (auto simp: getFallbackRecipes_def)
  ultimately show ?thesis by simp
qed

theorem generateRecipeSuggestions_no_ingredients_witness:
  "enableFallback referenceConfig \<and>
   generateRecipeSuggestions referenceConfig exampleDecoder clock0 (Inr titleOnlyResponse) (Some []) =
     Inr (getFallbackRecipes (Some [])) \<and>
   generateRecipeSuggestions referenceConfig exampleDecoder clock0 (Inr titleOnlyResponse) None =
     Inr (getFallbackRecipes None) \<and>
   map usedIngredients (getFallbackRecipes None) = [[], []] \<and>
   map matchedIngredients (getFallbackRecipes None) = [[], []]"
proof -
  have a: "enableFallback referenceConfig" by (simp add: referenceConfig_def)
  show ?thesis
    using a
      generateRecipeSuggestions_no_ingredients
        [OF a, of "Some []" exampleDecoder clock0 "Inr titleOnlyResponse"]
      generateRecipeSuggestions_no_ingredients
        [OF a, of None exampleDecoder clock0 "Inr titleOnlyResponse"]
    by simp
qed

end
